theory Spec2Isabelle
  imports Main "HOL-Library.Sublist" "HOL-Library.AList" "HOL-Library.Multiset"
begin

section \<open>JavaScript strings\<close>

text \<open>
  A JavaScript string is a sequence of UTF-16 code units; \<open>length\<close>, \<open>indexOf\<close>,
  \<open>slice\<close> and the regular expressions of \<open>scrape-schedule.js\<close> (none has the
  \<open>u\<close> flag) all count code units.  A code unit is a natural number, and \<open>js\<close>
  embeds an ASCII literal.  The code units that the definitions name: 10 is the line feed,
  32 the space, 43 the plus sign, 44 the comma, 45 the hyphen, 48 to 57 the digits, 58 the
  colon, 65 to 90 the capital letters, 97 to 122 the small letters (97 is \<open>a\<close>, 112 is
  \<open>p\<close>), and 8211 the en dash.
\<close>

type_synonym jsstring = "nat list"

definition js :: "string \<Rightarrow> jsstring" where
  "js s = map of_char s"

text \<open>
  The characters that \<open>String.prototype.trim\<close>, \<open>parseInt\<close> and the class \<open>\s\<close> treat
  as white space: TAB, LF, VT, FF, CR, SP, NBSP, U+1680, U+2000..U+200A, U+2028, U+2029,
  U+202F, U+205F, U+3000 and U+FEFF.
\<close>

definition isWhite :: "nat \<Rightarrow> bool" where
  "isWhite c \<longleftrightarrow> (9 \<le> c \<and> c \<le> 13) \<or> c = 32 \<or> c = 160 \<or> c = 5760 \<or>
     (8192 \<le> c \<and> c \<le> 8202) \<or> c = 8232 \<or> c = 8233 \<or> c = 8239 \<or> c = 8287 \<or>
     c = 12288 \<or> c = 65279"

definition trim :: "jsstring \<Rightarrow> jsstring" where
  "trim s = rev (dropWhile isWhite (rev (dropWhile isWhite s)))"

text \<open>
  Case folding of one code unit.  \<open>toLowerCase\<close> is modelled on the ASCII letters;
  the case mappings of characters outside ASCII are left as the identity.  For the \<open>i\<close> flag
  of a regular expression without the \<open>u\<close> flag this is exact on ASCII patterns: the
  canonicalisation of ECMAScript never maps a code unit above 127 to one below 128.
\<close>

definition lowerUnit :: "nat \<Rightarrow> nat" where
  "lowerUnit c = (if 65 \<le> c \<and> c \<le> 90 then c + 32 else c)"

definition toLowerCase :: "jsstring \<Rightarrow> jsstring" where
  "toLowerCase s = map lowerUnit s"

text \<open>\<open>s.indexOf(pat)\<close>: the first index at which \<open>pat\<close> occurs, or \<open>-1\<close>.\<close>

fun indexFrom :: "nat \<Rightarrow> jsstring \<Rightarrow> jsstring \<Rightarrow> int" where
  "indexFrom i pat [] = (if pat = [] then int i else -1)"
| "indexFrom i pat (c # cs) =
     (if prefix pat (c # cs) then int i else indexFrom (Suc i) pat cs)"

definition indexOf :: "jsstring \<Rightarrow> jsstring \<Rightarrow> int" where
  "indexOf s pat = indexFrom 0 pat s"

definition includesStr :: "jsstring \<Rightarrow> jsstring \<Rightarrow> bool" where
  "includesStr s pat \<longleftrightarrow> indexOf s pat \<noteq> -1"

text \<open>\<open>s.slice(0, e)\<close>: a negative end counts from the end of the string.\<close>

definition slice0 :: "jsstring \<Rightarrow> int \<Rightarrow> jsstring" where
  "slice0 s e =
     (let n = int (length s);
          to = (if e < 0 then max (n + e) 0 else min e n)
      in take (nat to) s)"

text \<open>\<open>s.slice(b)\<close> for an index \<open>b \<ge> 0\<close>, as \<open>search\<close> returns it after a successful \<open>test\<close>.\<close>

definition sliceFrom :: "jsstring \<Rightarrow> int \<Rightarrow> jsstring" where
  "sliceFrom s b =
     (let n = int (length s);
          frm = (if b < 0 then max (n + b) 0 else min b n)
      in drop (nat frm) s)"

text \<open>\<open>s.split(sep)\<close> for a string separator.\<close>

function splitStr :: "jsstring \<Rightarrow> jsstring \<Rightarrow> jsstring list" where
  "splitStr sep s =
     (if sep = [] then map (\<lambda>c. [c]) s
      else if indexOf s sep < 0 then [s]
      else take (nat (indexOf s sep)) s #
           splitStr sep (drop (nat (indexOf s sep) + length sep) s))"
  by pat_completeness auto

lemma indexFrom_bound:
  "0 \<le> indexFrom i pat s \<Longrightarrow> int i \<le> indexFrom i pat s \<and>
     indexFrom i pat s + int (length pat) \<le> int i + int (length s)"
proof (induction s arbitrary: i)
  case Nil
  then show ?case by (simp split: if_splits)
next
  case (Cons c cs)
  show ?case
  proof (cases "prefix pat (c # cs)")
    case True
    then have "length pat \<le> length (c # cs)" by (rule prefix_length_le)
    with True show ?thesis by simp
  next
    case False
    with Cons.prems have "0 \<le> indexFrom (Suc i) pat cs" by simp
    from Cons.IH [OF this] False show ?thesis by simp
  qed
qed

lemma indexOf_bound:
  "0 \<le> indexOf s pat \<Longrightarrow> nat (indexOf s pat) + length pat \<le> length s"
  using indexFrom_bound [of 0 pat s] by (simp add: indexOf_def)

termination splitStr
proof (relation "measure (\<lambda>(sep, s). length s)")
  show "wf (measure (\<lambda>(sep, s). length s))" by simp
next
  fix sep s :: jsstring
  assume "sep \<noteq> []" and "\<not> indexOf s sep < 0"
  then have "nat (indexOf s sep) + length sep \<le> length s" and "0 < length sep"
    using indexOf_bound [of s sep] by simp_all
  then show "((sep, drop (nat (indexOf s sep) + length sep) s), (sep, s))
      \<in> measure (\<lambda>(sep, s). length s)"
    by (simp, arith)
qed

declare splitStr.simps [simp del]

section \<open>Constants of the scraper\<close>

definition defaultDays :: "jsstring list" where
  "defaultDays = map js [''Monday'', ''Tuesday'', ''Wednesday'', ''Thursday'', ''Friday'',
     ''Saturday'', ''Sunday'']"

text \<open>
  \<open>CAPTION_REGEX\<close> is a case-insensitive alternation of fourteen words; \<open>captionAt s\<close>
  holds when one of the alternatives matches at the start of \<open>s\<close>.
\<close>

definition captionWords :: "jsstring list" where
  "captionWords = map js [''starting'', ''until'', ''january'', ''february'', ''march'',
     ''april'', ''may'', ''june'', ''july'', ''august'', ''september'', ''october'',
     ''november'', ''december'']"

definition captionAt :: "jsstring \<Rightarrow> bool" where
  "captionAt s \<longleftrightarrow> list_ex (\<lambda>w. prefix w (toLowerCase s)) captionWords"

text \<open>\<open>s.search(CAPTION_REGEX)\<close>: the index of the leftmost match, or \<open>-1\<close>.\<close>

fun searchFrom :: "nat \<Rightarrow> jsstring \<Rightarrow> int" where
  "searchFrom i [] = -1"
| "searchFrom i (c # cs) = (if captionAt (c # cs) then int i else searchFrom (Suc i) cs)"

definition searchCaption :: "jsstring \<Rightarrow> int" where
  "searchCaption s = searchFrom 0 s"

text \<open>\<open>CAPTION_REGEX.test(s)\<close>.\<close>

definition testCaption :: "jsstring \<Rightarrow> bool" where
  "testCaption s \<longleftrightarrow> searchCaption s \<noteq> -1"

section \<open>The novelty tracker: \<open>buildDateTable\<close>\<close>

text \<open>
  The four fixed properties of an aggregated location and of an activity row.  The
  coordinates are a pair of latitude and longitude, kept as text.
\<close>

record facility =
  link :: "jsstring option"
  home :: jsstring
  address :: jsstring
  coordinates :: "(jsstring \<times> jsstring) option"

text \<open>
  A value of \<open>resultsByLocation\<close>: the fixed properties and one property per day that has
  ranges.  The day properties are an association list in insertion order; none of the
  seven names of \<open>defaultDays\<close> is the name of a fixed property.
\<close>

record locationEntry = facility +
  sched :: "(jsstring \<times> jsstring list) list"

text \<open>
  \<open>Date.now()\<close> reads a clock.  A clock is the sequence of its successive readings, and
  the number of readings taken so far is passed from one step to the next.  The persisted table
  maps a key to the time stamp it was first seen at.
\<close>

type_synonym clock = "nat \<Rightarrow> int"
type_synonym dateTable = "jsstring \<rightharpoonup> int"

text \<open>Lines 479 and 480: the name used in the keys of one location.\<close>

definition locationBaseName :: "jsstring \<Rightarrow> jsstring" where
  "locationBaseName locationName =
     (let captionIndex = searchCaption locationName
      in trim (slice0 locationName captionIndex))"

text \<open>Lines 486 and 487: the key of one entry.\<close>

definition noveltyKey :: "jsstring \<Rightarrow> jsstring \<Rightarrow> jsstring \<Rightarrow> jsstring" where
  "noveltyKey name day time =
     (let timeWithoutActivity = hd (splitStr (js '' ('') time)
      in name @ js ''|'' @ day @ js ''|'' @ timeWithoutActivity)"

text \<open>
  Lines 488 and 489.  \<open>previous[key] || Date.now()\<close> reads the clock only when the stored
  value is missing or falsy; for a number that is the value \<open>0\<close>.
\<close>

definition putKey :: "clock \<Rightarrow> dateTable \<Rightarrow> jsstring \<Rightarrow> dateTable \<times> nat \<Rightarrow> dateTable \<times> nat" where
  "putKey clk previous key st =
     (case st of (result, n) \<Rightarrow>
        (case previous key of
           Some t \<Rightarrow> if t \<noteq> 0 then (result(key \<mapsto> t), n) else (result(key \<mapsto> clk n), Suc n)
         | None \<Rightarrow> (result(key \<mapsto> clk n), Suc n)))"

text \<open>The loop over the times of one day (line 485).\<close>

fun addTimes ::
  "clock \<Rightarrow> dateTable \<Rightarrow> jsstring \<Rightarrow> jsstring \<Rightarrow> jsstring list \<Rightarrow> dateTable \<times> nat \<Rightarrow> dateTable \<times> nat"
  where
  "addTimes clk previous name day [] st = st"
| "addTimes clk previous name day (time # rest) st =
     addTimes clk previous name day rest (putKey clk previous (noveltyKey name day time) st)"

text \<open>The loop over \<open>defaultDays\<close> (line 482); a day without a property is skipped.\<close>

fun addDays ::
  "clock \<Rightarrow> dateTable \<Rightarrow> jsstring \<Rightarrow> 'a locationEntry_scheme \<Rightarrow> jsstring list \<Rightarrow>
     dateTable \<times> nat \<Rightarrow> dateTable \<times> nat"
  where
  "addDays clk previous name location [] st = st"
| "addDays clk previous name location (day # ds) st =
     (case map_of (sched location) day of
        None \<Rightarrow> addDays clk previous name location ds st
      | Some ts \<Rightarrow>
          addDays clk previous name location ds (addTimes clk previous name day ts st))"

text \<open>The loop over the locations (line 478), in the enumeration order of \<open>current\<close>.\<close>

fun addLocations ::
  "clock \<Rightarrow> dateTable \<Rightarrow> (jsstring \<times> 'a locationEntry_scheme) list \<Rightarrow>
     dateTable \<times> nat \<Rightarrow> dateTable \<times> nat"
  where
  "addLocations clk previous [] st = st"
| "addLocations clk previous ((locationName, location) # rest) st =
     addLocations clk previous rest
       (addDays clk previous (locationBaseName locationName) location defaultDays st)"

text \<open>
  \<open>buildDateTable(previous, current)\<close>: the new table, and the number of clock readings
  the call has taken.
\<close>

definition buildDateTable ::
  "clock \<Rightarrow> dateTable \<Rightarrow> (jsstring \<times> 'a locationEntry_scheme) list \<Rightarrow> dateTable \<times> nat" where
  "buildDateTable clk previous current = addLocations clk previous current (Map.empty, 0)"

text \<open>
  The keys derivable from a schedule: one for every location of \<open>current\<close>, every day of
  \<open>defaultDays\<close> that the location has, and every range of that day.
\<close>

definition noveltyKeys :: "(jsstring \<times> 'a locationEntry_scheme) list \<Rightarrow> jsstring set" where
  "noveltyKeys current =
     {noveltyKey (locationBaseName locationName) day time | locationName location day ts time.
        (locationName, location) \<in> set current \<and> day \<in> set defaultDays \<and>
        map_of (sched location) day = Some ts \<and> time \<in> set ts}"

text \<open>
  What \<open>buildDateTable\<close> maintains for every key it has written: the stored stamp is
  the previous one when that is truthy, and otherwise one of the clock readings taken so far.
\<close>

definition stampOK :: "clock \<Rightarrow> dateTable \<Rightarrow> nat \<Rightarrow> jsstring \<Rightarrow> int \<Rightarrow> bool" where
  "stampOK clk previous n key v \<longleftrightarrow>
     (case previous key of
        Some t \<Rightarrow> if t \<noteq> 0 then v = t else (\<exists>i<n. v = clk i)
      | None \<Rightarrow> (\<exists>i<n. v = clk i))"

definition tableOK :: "clock \<Rightarrow> dateTable \<Rightarrow> dateTable \<times> nat \<Rightarrow> bool" where
  "tableOK clk previous st \<longleftrightarrow> (\<forall>k v. fst st k = Some v \<longrightarrow> stampOK clk previous (snd st) k v)"

definition dayKeys :: "jsstring \<Rightarrow> 'a locationEntry_scheme \<Rightarrow> jsstring list \<Rightarrow> jsstring set" where
  "dayKeys name location ds =
     {noveltyKey name day time | day ts time.
        day \<in> set ds \<and> map_of (sched location) day = Some ts \<and> time \<in> set ts}"

text \<open>
  The base name in the words of the spec's data model: the location name with any trailing
  caption clause stripped.  A name without a caption keyword has no such clause and is its
  own base name.
\<close>

definition specBaseName :: "jsstring \<Rightarrow> jsstring" where
  "specBaseName locationName =
     (if testCaption locationName
      then trim (slice0 locationName (searchCaption locationName))
      else locationName)"

section \<open>The time token parser\<close>

text \<open>\<open>s.replace(/pat/g, rep)\<close> for a literal, non-empty pattern \<open>pat\<close>.\<close>

function replaceAll :: "jsstring \<Rightarrow> jsstring \<Rightarrow> jsstring \<Rightarrow> jsstring" where
  "replaceAll pat rep [] = []"
| "replaceAll pat rep (c # cs) =
     (if pat \<noteq> [] \<and> prefix pat (c # cs)
      then rep @ replaceAll pat rep (drop (length pat) (c # cs))
      else c # replaceAll pat rep cs)"
  by pat_completeness auto
termination
  by (relation "measure (\<lambda>(pat, rep, s). length s)") auto

text \<open>\<open>.replace(/[U+2013]/g, '-')\<close>: the en dash, code unit 8211, becomes the hyphen, 45.\<close>

definition replaceEnDash :: "jsstring \<Rightarrow> jsstring" where
  "replaceEnDash s = map (\<lambda>c. if c = 8211 then 45 else c) s"

text \<open>
  \<open>.replace(/([^ ])-([^ ])/g, '$1 - $2')\<close>.  A match takes three code units, and the
  search for the next match starts after them.
\<close>

fun spaceDash :: "jsstring \<Rightarrow> jsstring" where
  "spaceDash (a # b # c # rest) =
     (if a \<noteq> 32 \<and> b = 45 \<and> c \<noteq> 32 then a # 32 # 45 # 32 # c # spaceDash rest
      else a # spaceDash (b # c # rest))"
| "spaceDash s = s"

text \<open>
  \<open>.split(/(,|\n+|,)/)\<close>.  The separator is a comma or a maximal run of line feeds, and
  since the pattern is one capturing group, every separator is itself an element of the
  result, between the two pieces it separates.
\<close>

function splitCell :: "jsstring \<Rightarrow> jsstring \<Rightarrow> jsstring list" where
  "splitCell cur [] = [rev cur]"
| "splitCell cur (c # cs) =
     (if c = 44 then rev cur # [c] # splitCell [] cs
      else if c = 10
      then rev cur # (c # takeWhile (\<lambda>d. d = 10) cs) # splitCell [] (dropWhile (\<lambda>d. d = 10) cs)
      else splitCell (c # cur) cs)"
  by pat_completeness auto
termination
  by (relation "measure (\<lambda>(cur, s). length s)")
     (auto simp: length_dropWhile_le less_Suc_eq_le)

text \<open>
  \<open>parseInt(s)\<close> with no radix: leading white space, an optional sign, an optional
  \<open>0x\<close> or \<open>0X\<close> that selects radix 16, and the longest run of digits of the radix.
  \<open>None\<close> is \<open>NaN\<close>: there is no digit.
\<close>

definition digitValue :: "nat \<Rightarrow> nat" where
  "digitValue c =
     (if 48 \<le> c \<and> c \<le> 57 then c - 48
      else if 97 \<le> c \<and> c \<le> 122 then c - 87
      else if 65 \<le> c \<and> c \<le> 90 then c - 55
      else 36)"

definition digitsValue :: "nat \<Rightarrow> jsstring \<Rightarrow> int option" where
  "digitsValue radix s =
     (if takeWhile (\<lambda>c. digitValue c < radix) s = [] then None
      else Some (foldl (\<lambda>a c. a * int radix + int (digitValue c)) 0
                   (takeWhile (\<lambda>c. digitValue c < radix) s)))"

definition unsignedInt :: "jsstring \<Rightarrow> int option" where
  "unsignedInt s =
     (if prefix (js ''0x'') s \<or> prefix (js ''0X'') s then digitsValue 16 (drop 2 s)
      else digitsValue 10 s)"

fun signedInt :: "jsstring \<Rightarrow> int option" where
  "signedInt [] = None"
| "signedInt (c # cs) =
     (if c = 45 then map_option uminus (unsignedInt cs)
      else if c = 43 then unsignedInt cs
      else unsignedInt (c # cs))"

definition parseInt :: "jsstring \<Rightarrow> int option" where
  "parseInt s = signedInt (dropWhile isWhite s)"

text \<open>
  The text of a value that is a string or \<open>undefined\<close>, as a property name and as the
  argument of \<open>test\<close>, \<open>includes\<close> and \<open>startsWith\<close>.
\<close>

definition textOf :: "jsstring option \<Rightarrow> jsstring" where
  "textOf day = (case day of None \<Rightarrow> js ''undefined'' | Some d \<Rightarrow> d)"

text \<open>
  \<open>eveningsAndWeekends(day)(time)\<close>.  The day is \<open>undefined\<close> when the index of the cell is
  outside \<open>days\<close>.
\<close>

definition eveningsAndWeekends :: "jsstring option \<Rightarrow> jsstring \<Rightarrow> bool" where
  "eveningsAndWeekends day time =
     (if includesStr (toLowerCase (textOf day)) (js ''sat'') \<or>
         includesStr (toLowerCase (textOf day)) (js ''sun'') then True
      else if \<not> includesStr time (js ''pm'') then False
      else (case parseInt time of
              None \<Rightarrow> False
            | Some startTime \<Rightarrow> startTime \<noteq> 12 \<and> startTime \<ge> 5 \<and> startTime < 10))"

text \<open>Lines 351 to 356: the text of a cell before it is split.\<close>

definition normaliseCell :: "jsstring \<Rightarrow> jsstring" where
  "normaliseCell text =
     spaceDash (replaceEnDash (replaceAll (js ''noon'') (js ''12 pm'') (toLowerCase text)))"

text \<open>Lines 357 and 358: the trimmed elements of the split.\<close>

definition cellCandidates :: "jsstring \<Rightarrow> jsstring list" where
  "cellCandidates text = map trim (splitCell [] (normaliseCell text))"

text \<open>Lines 359 to 362; \<open>flagE\<close> is \<open>flags.e\<close>.\<close>

definition timeTokens :: "bool \<Rightarrow> jsstring option \<Rightarrow> jsstring \<Rightarrow> jsstring list" where
  "timeTokens flagE day text =
     filter (if flagE then eveningsAndWeekends day else (\<lambda>time. True))
       (filter (\<lambda>time. parseInt time \<noteq> None) (cellCandidates text))"

section \<open>The activity row extractor\<close>

text \<open>
  What the selectors of \<open>main\<close> read from a table: the text of every \<open>thead tr th\<close>, the
  text of every \<open>td\<close> of the first body row, and the text of the caption.  Of a row: the
  text of every \<open>th\<close> and of every \<open>td\<close> in it, in document order.
\<close>

record scheduleTable =
  theadCells :: "jsstring list"
  firstRowCells :: "jsstring list"
  captionText :: jsstring

record tableRow =
  headerCells :: "jsstring list"
  dataCells :: "jsstring list"

text \<open>\<open>getDays\<close> (lines 321 to 334).\<close>

definition getDays :: "scheduleTable \<Rightarrow> jsstring list" where
  "getDays t =
     (if includesStr (concat (theadCells t)) (js ''Monday'')
      then filter (\<lambda>x. x \<noteq> []) (map trim (theadCells t))
      else if includesStr (concat (firstRowCells t)) (js ''Monday'')
      then filter (\<lambda>x. x \<noteq> []) (map trim (firstRowCells t))
      else defaultDays)"

text \<open>\<open>.replace(/\s+/g, ' ')\<close>.\<close>

function collapseWhite :: "jsstring \<Rightarrow> jsstring" where
  "collapseWhite [] = []"
| "collapseWhite (c # cs) =
     (if isWhite c then 32 # collapseWhite (dropWhile isWhite cs) else c # collapseWhite cs)"
  by pat_completeness auto
termination
  by (relation "measure length") (auto simp: length_dropWhile_le less_Suc_eq_le)

text \<open>Lines 341 to 345.\<close>

definition headName :: "tableRow \<Rightarrow> jsstring" where
  "headName r = collapseWhite (concat (headerCells r))"

definition activityIsHead :: "tableRow \<Rightarrow> bool" where
  "activityIsHead r \<longleftrightarrow> headName r \<noteq> []"

definition activityOf :: "tableRow \<Rightarrow> jsstring" where
  "activityOf r =
     (if headName r \<noteq> [] then headName r
      else collapseWhite (case dataCells r of [] \<Rightarrow> [] | first # other \<Rightarrow> first))"

text \<open>\<open>days[actualIndex]\<close>: \<open>undefined\<close> outside the array.\<close>

definition dayAt :: "jsstring list \<Rightarrow> int \<Rightarrow> jsstring option" where
  "dayAt days i = (if 0 \<le> i \<and> i < int (length days) then Some (days ! nat i) else None)"

text \<open>Line 350.\<close>

definition actualIndex :: "bool \<Rightarrow> nat \<Rightarrow> int" where
  "actualIndex isHead index = int index - (if isHead then 0 else 1)"

text \<open>The callback of \<open>map\<close> at lines 349 to 364: the day and the tokens of one cell.\<close>

definition cellSchedule ::
  "bool \<Rightarrow> jsstring list \<Rightarrow> bool \<Rightarrow> nat \<times> jsstring \<Rightarrow> jsstring option \<times> jsstring list" where
  "cellSchedule flagE days isHead cell =
     (case cell of (index, text) \<Rightarrow>
        (dayAt days (actualIndex isHead index),
         timeTokens flagE (dayAt days (actualIndex isHead index)) text))"

definition rowCells ::
  "bool \<Rightarrow> jsstring list \<Rightarrow> tableRow \<Rightarrow> (jsstring option \<times> jsstring list) list" where
  "rowCells flagE days r =
     map (cellSchedule flagE days (activityIsHead r)) (enumerate 0 (dataCells r))"

text \<open>
  The callback of \<open>reduce\<close> at lines 365 to 370.  The property name of the day
  \<open>undefined\<close> is the text \<open>undefined\<close>.  The object is an association list: a new name is
  added at the end and an old one keeps its place.  Nothing below depends on the order of
  the properties.
\<close>

definition addCell ::
  "jsstring option \<times> jsstring list \<Rightarrow> (jsstring \<times> jsstring list) list \<Rightarrow>
     (jsstring \<times> jsstring list) list" where
  "addCell current result =
     (if snd current \<noteq> [] then AList.update (textOf (fst current)) (snd current) result
      else result)"

definition rowSchedules ::
  "bool \<Rightarrow> jsstring list \<Rightarrow> tableRow \<Rightarrow> (jsstring \<times> jsstring list) list" where
  "rowSchedules flagE days r = fold addCell (rowCells flagE days r) []"

section \<open>The activities of one page\<close>

text \<open>
  An element of \<open>results\<close>: the fixed properties, the location name with its caption, the
  activity name and the schedule object of the row.
\<close>

record activitySchedule = facility +
  location :: jsstring
  activity :: jsstring
  schedules :: "(jsstring \<times> jsstring list) list"

text \<open>Lines 336 to 340: the caption from its first keyword on, or \<open>null\<close>.\<close>

definition captionOf :: "scheduleTable \<Rightarrow> jsstring option" where
  "captionOf t =
     (if testCaption (captionText t)
      then Some (sliceFrom (captionText t) (searchCaption (captionText t)))
      else None)"

text \<open>Line 372: \<open>[location, caption].filter((x) => x).join(' ')\<close>.\<close>

definition locationWithCaption :: "jsstring \<Rightarrow> jsstring option \<Rightarrow> jsstring" where
  "locationWithCaption pageLocation caption =
     (case caption of
        None \<Rightarrow> pageLocation
      | Some c \<Rightarrow>
          if c = [] then pageLocation
          else if pageLocation = [] then c
          else pageLocation @ js '' '' @ c)"

text \<open>
  The callback of \<open>map\<close> at lines 319 to 379, for one matching row and its table, and the
  \<open>filter\<close> of line 380, which drops a row whose schedule object has no property.  The
  coordinates are not set here.
\<close>

definition extractRow ::
  "bool \<Rightarrow> 'a facility_scheme \<Rightarrow> jsstring \<Rightarrow> scheduleTable \<times> tableRow \<Rightarrow> activitySchedule" where
  "extractRow flagE page pageLocation tr =
     \<lparr>link = link page, home = home page, address = address page, coordinates = None,
      location = locationWithCaption pageLocation (captionOf (fst tr)),
      activity = activityOf (snd tr),
      schedules = rowSchedules flagE (getDays (fst tr)) (snd tr)\<rparr>"

definition pageActivities ::
  "bool \<Rightarrow> 'a facility_scheme \<Rightarrow> jsstring \<Rightarrow> (scheduleTable \<times> tableRow) list \<Rightarrow>
     activitySchedule list" where
  "pageActivities flagE page pageLocation rows =
     filter (\<lambda>x. schedules x \<noteq> []) (map (extractRow flagE page pageLocation) rows)"

section \<open>The location aggregator\<close>

text \<open>\<open>time.replace(/ ?: ?/g, ':')\<close>: a colon with at most one space on each side.\<close>

fun skipSpace :: "jsstring \<Rightarrow> jsstring" where
  "skipSpace [] = []"
| "skipSpace (c # cs) = (if c = 32 then cs else c # cs)"

lemma length_skipSpace: "length (skipSpace s) \<le> length s"
  by (cases s) simp_all

function fixColons :: "jsstring \<Rightarrow> jsstring" where
  "fixColons [] = []"
| "fixColons [c] = [c]"
| "fixColons (a # b # rest) =
     (if a = 58 then 58 # fixColons (skipSpace (b # rest))
      else if a = 32 \<and> b = 58 then 58 # fixColons (skipSpace rest)
      else a # fixColons (b # rest))"
  by pat_completeness auto
termination
proof (relation "measure length")
  fix a b :: nat and rest :: jsstring
  have "length (skipSpace (b # rest)) \<le> length (b # rest)" by (rule length_skipSpace)
  then show "(skipSpace (b # rest), a # b # rest) \<in> measure length" by simp
  have "length (skipSpace rest) \<le> length rest" by (rule length_skipSpace)
  then show "(skipSpace rest, a # b # rest) \<in> measure length" by simp
qed simp_all

text \<open>Lines 405 to 408: the range with its colons fixed, and the activity in brackets.\<close>

definition labelRange :: "jsstring \<Rightarrow> jsstring \<Rightarrow> jsstring" where
  "labelRange act time = fixColons time @ js '' ('' @ trim act @ js '')''"

text \<open>\<open>x.split(/[U+2013-]/)\<close>: the pieces between the dashes, en dash (8211) or hyphen (45).\<close>

fun splitDash :: "jsstring \<Rightarrow> jsstring \<Rightarrow> jsstring list" where
  "splitDash cur [] = [rev cur]"
| "splitDash cur (c # cs) =
     (if c = 8211 \<or> c = 45 then rev cur # splitDash [] cs else splitDash (c # cur) cs)"

text \<open>\<open>s.substring(0, e)\<close>: the end is clamped to the string.\<close>

definition substring0 :: "jsstring \<Rightarrow> int \<Rightarrow> jsstring" where
  "substring0 s e = take (nat e) s"

text \<open>
  The argument that \<open>getTime\<close> hands to \<open>moment\<close> (lines 413 to 416): the second piece of
  the split, cut at an index that is computed on the whole of \<open>x\<close>, and trimmed.  There
  is no second piece when \<open>x\<close> has no dash; \<open>substring\<close> of \<open>undefined\<close> then throws a
  \<open>TypeError\<close>, which is the value \<open>None\<close>.
\<close>

definition timeText :: "jsstring \<Rightarrow> jsstring option" where
  "timeText x =
     (case splitDash [] x of
        first # second # other \<Rightarrow>
          Some (trim (substring0 second
                  (max (indexOf x (js ''am'')) (indexOf x (js ''pm'') + 2))))
      | _ \<Rightarrow> None)"

text \<open>
  \<open>moment(text, ['h:mm a', 'h a'])\<close> is a parameter \<open>parse\<close> of the aggregator: the time
  stamp of the parsed moment, or \<open>None\<close> for an invalid moment, whose number is \<open>NaN\<close>.
  \<open>timeOf\<close> is the number that \<open>getTime(x)\<close> contributes to the subtraction of line 419;
  it is read only where \<open>getTime\<close> does not throw, that is where \<open>timeText\<close> has a value.
\<close>

definition timeOf :: "(jsstring \<Rightarrow> int option) \<Rightarrow> jsstring \<Rightarrow> int option" where
  "timeOf parse x = (case timeText x of None \<Rightarrow> None | Some t \<Rightarrow> parse t)"

text \<open>
  Line 419: the difference of the two numbers.  The difference is \<open>NaN\<close> when one of them
  is, and \<open>sort\<close> reads a \<open>NaN\<close> from its comparator as \<open>0\<close>.
\<close>

definition compareTimes :: "(jsstring \<Rightarrow> int option) \<Rightarrow> jsstring \<Rightarrow> jsstring \<Rightarrow> int" where
  "compareTimes parse a b =
     (case timeOf parse a of
        None \<Rightarrow> 0
      | Some u \<Rightarrow> (case timeOf parse b of None \<Rightarrow> 0 | Some v \<Rightarrow> u - v))"

text \<open>
  \<open>Array.prototype.sort\<close> is stable.  With a comparator that is a consistent order its
  result is determined, whatever the algorithm: the elements in ascending order, equal
  ones in their order in the array.  The model is insertion from the right, an element
  going before the first one it does not exceed.  With a comparator that is not a
  consistent order, as when a number is \<open>NaN\<close>, the standard leaves the order to the
  implementation, and the model is one permutation among those.
\<close>

fun insertRange :: "(jsstring \<Rightarrow> jsstring \<Rightarrow> int) \<Rightarrow> jsstring \<Rightarrow> jsstring list \<Rightarrow> jsstring list"
  where
  "insertRange cmp x [] = [x]"
| "insertRange cmp x (y # ys) =
     (if cmp x y \<le> 0 then x # y # ys else y # insertRange cmp x ys)"

definition stableSort :: "(jsstring \<Rightarrow> jsstring \<Rightarrow> int) \<Rightarrow> jsstring list \<Rightarrow> jsstring list" where
  "stableSort cmp xs = foldr (insertRange cmp) xs []"

datatype jsError = TypeError

text \<open>
  The \<open>sort\<close> of lines 410 to 420.  An array of fewer than two elements is returned
  without a call of the comparator.  Otherwise every element is compared at least once,
  and the call throws if one of them has no dash.
\<close>

definition sortRanges :: "(jsstring \<Rightarrow> int option) \<Rightarrow> jsstring list \<Rightarrow> jsError + jsstring list" where
  "sortRanges parse xs =
     (if length xs < 2 then Inr xs
      else if list_ex (\<lambda>x. timeText x = None) xs then Inl TypeError
      else Inr (stableSort (compareTimes parse) xs))"

text \<open>\<open>acc[activitySchedule.location]?.[day] || []\<close> and \<open>activitySchedule.schedules[day] || []\<close>.\<close>

definition existingRanges ::
  "(jsstring \<times> 'a locationEntry_scheme) list \<Rightarrow> jsstring \<Rightarrow> jsstring \<Rightarrow> jsstring list" where
  "existingRanges acc name day =
     (case map_of acc name of
        None \<Rightarrow> []
      | Some old \<Rightarrow> (case map_of (sched old) day of None \<Rightarrow> [] | Some xs \<Rightarrow> xs))"

definition newRanges :: "'a activitySchedule_scheme \<Rightarrow> jsstring \<Rightarrow> jsstring list" where
  "newRanges a day = (case map_of (schedules a) day of None \<Rightarrow> [] | Some ts \<Rightarrow> ts)"

text \<open>
  The loop over \<open>defaultDays\<close> (lines 399 to 424), building the day properties of the new
  location object; \<open>old\<close> reads the ranges the accumulator has for the location.
\<close>

fun buildDays ::
  "(jsstring \<Rightarrow> int option) \<Rightarrow> (jsstring \<Rightarrow> jsstring list) \<Rightarrow> 'a activitySchedule_scheme \<Rightarrow>
     jsstring list \<Rightarrow> (jsstring \<times> jsstring list) list \<Rightarrow>
     jsError + (jsstring \<times> jsstring list) list" where
  "buildDays parse old a [] sch = Inr sch"
| "buildDays parse old a (day # ds) sch =
     (case sortRanges parse (old day @ map (labelRange (activity a)) (newRanges a day)) of
        Inl e \<Rightarrow> Inl e
      | Inr daySchedule \<Rightarrow>
          buildDays parse old a ds
            (if daySchedule \<noteq> [] then AList.update day daySchedule sch else sch))"

text \<open>The callback of \<open>reduce\<close> (lines 392 to 427) for one element of \<open>results\<close>.\<close>

definition addActivity ::
  "(jsstring \<Rightarrow> int option) \<Rightarrow> activitySchedule \<Rightarrow> (jsstring \<times> locationEntry) list \<Rightarrow>
     jsError + (jsstring \<times> locationEntry) list" where
  "addActivity parse a acc =
     (case buildDays parse (existingRanges acc (location a)) a defaultDays [] of
        Inl e \<Rightarrow> Inl e
      | Inr sch \<Rightarrow>
          Inr (AList.update (location a)
                 \<lparr>link = link a, home = home a, address = address a,
                  coordinates = coordinates a, sched = sch\<rparr> acc))"

fun reduceActivities ::
  "(jsstring \<Rightarrow> int option) \<Rightarrow> activitySchedule list \<Rightarrow> (jsstring \<times> locationEntry) list \<Rightarrow>
     jsError + (jsstring \<times> locationEntry) list" where
  "reduceActivities parse [] acc = Inr acc"
| "reduceActivities parse (a # rest) acc =
     (case addActivity parse a acc of
        Inl e \<Rightarrow> Inl e
      | Inr acc' \<Rightarrow> reduceActivities parse rest acc')"

definition resultsByLocation ::
  "(jsstring \<Rightarrow> int option) \<Rightarrow> activitySchedule list \<Rightarrow> jsError + (jsstring \<times> locationEntry) list"
  where
  "resultsByLocation parse results = reduceActivities parse results []"


text \<open>
  Modelled from the spec: the library \<open>moment\<close> is not among the sources, and the spec
  says of it that the text is parsed with a 12-hour clock format.  \<open>clock12\<close> reads one or
  two digits of the hour, an optional colon with one or two digits of the minute, spaces,
  and the letter \<open>a\<close> or \<open>p\<close> of the meridiem in either case; what follows is ignored, as
  by the forgiving mode of \<open>moment\<close>.  The value is the number of minutes since midnight,
  which orders the moments of one day as their time stamps do.  A text that is not of this
  form has no value here.
\<close>

definition isDigit :: "nat \<Rightarrow> bool" where
  "isDigit c \<longleftrightarrow> 48 \<le> c \<and> c \<le> 57"

definition decimal :: "jsstring \<Rightarrow> nat" where
  "decimal ds = foldl (\<lambda>a c. a * 10 + (c - 48)) 0 ds"

definition clockMinutes :: "nat \<Rightarrow> nat \<Rightarrow> bool \<Rightarrow> int option" where
  "clockMinutes h m pm =
     (if 1 \<le> h \<and> h \<le> 12 \<and> m \<le> 59
      then Some (int ((h mod 12 + (if pm then 12 else 0)) * 60 + m))
      else None)"

fun withMeridiem :: "nat \<Rightarrow> nat \<Rightarrow> jsstring \<Rightarrow> int option" where
  "withMeridiem h m [] = None"
| "withMeridiem h m (c # cs) =
     (if c = 32 then withMeridiem h m cs
      else if lowerUnit c = 97 then clockMinutes h m False
      else if lowerUnit c = 112 then clockMinutes h m True
      else None)"

fun afterHour :: "nat \<Rightarrow> jsstring \<Rightarrow> int option" where
  "afterHour h [] = None"
| "afterHour h (c # cs) =
     (if c = 58
      then (if takeWhile isDigit cs = [] \<or> 2 < length (takeWhile isDigit cs) then None
            else withMeridiem h (decimal (takeWhile isDigit cs)) (dropWhile isDigit cs))
      else withMeridiem h 0 (c # cs))"

definition clock12 :: "jsstring \<Rightarrow> int option" where
  "clock12 s =
     (if takeWhile isDigit s = [] \<or> 2 < length (takeWhile isDigit s) then None
      else afterHour (decimal (takeWhile isDigit s)) (dropWhile isDigit s))"

text \<open>
  The chronological start time of a labelled range, in the words of the spec's data
  model: the text before the dash, read on the 12-hour clock.
\<close>

definition specStartTime :: "jsstring \<Rightarrow> int option" where
  "specStartTime x = clock12 (trim (hd (splitDash [] x)))"

text \<open>
  What the aggregator maintains.  Every day property of an aggregated location is one of
  \<open>defaultDays\<close> and holds at least one range.
\<close>

definition daysOK :: "jsstring \<times> locationEntry \<Rightarrow> bool" where
  "daysOK e \<longleftrightarrow>
     fst ` set (sched (snd e)) \<subseteq> set defaultDays \<and> (\<forall>d\<in>set (sched (snd e)). snd d \<noteq> [])"

text \<open>
  The number by which line 419 orders a labelled range.  \<open>validRanges\<close> says that every
  labelled range of \<open>results\<close> under a day of \<open>defaultDays\<close> has such a number: it has
  a dash, and the text after it parses.  \<open>sortedRanges\<close> relates the accumulator to the
  elements of \<open>results\<close> that \<open>reduce\<close> has seen: a location is present exactly if one of
  them has its name, and each of its days holds the ranges of those elements in stable
  ascending order.
\<close>

definition rangeKey :: "(jsstring \<Rightarrow> int option) \<Rightarrow> jsstring \<Rightarrow> int" where
  "rangeKey parse x = (case timeOf parse x of None \<Rightarrow> 0 | Some v \<Rightarrow> v)"



text \<open>
  The end of a labelled range in the words of the spec's data model: a range is
  \<open><start> - <end>\<close>, so its end is the text after the dash, without the activity suffix
  that begins with \<open> (\<close>.  \<open>endTimeOf\<close> is the time that the parser reads from that text.
  \<open>endTimesRead\<close> says of every labelled range of \<open>results\<close> under a day of \<open>defaultDays\<close>
  that the number line 419 orders it by is its end time.
\<close>

definition endText :: "jsstring \<Rightarrow> jsstring option" where
  "endText x =
     (case splitDash [] (hd (splitStr (js '' ('') x)) of
        first # second # other \<Rightarrow> Some (trim second)
      | _ \<Rightarrow> None)"

definition endTimeOf :: "(jsstring \<Rightarrow> int option) \<Rightarrow> jsstring \<Rightarrow> int option" where
  "endTimeOf parse x = (case endText x of None \<Rightarrow> None | Some t \<Rightarrow> parse t)"

definition endKey :: "(jsstring \<Rightarrow> int option) \<Rightarrow> jsstring \<Rightarrow> int" where
  "endKey parse x = (case endTimeOf parse x of None \<Rightarrow> 0 | Some v \<Rightarrow> v)"


section \<open>Marking the new ranges\<close>

text \<open>Line 34: one week in milliseconds.\<close>

definition NEW_TIMESLOT :: int where
  "NEW_TIMESLOT = 7 * 24 * 60 * 60 * 1000"

text \<open>
  \<open>resultsByLocation[location][day]\<close> (line 441) reads a property of a location object by
  a name that comes out of a key.  The name of a fixed property gives its value, which,
  when truthy, is a string or an object and has no \<open>map\<close>; so has every member that the
  object inherits from \<open>Object.prototype\<close>.  The name of a day property gives its array.
\<close>

definition inheritedNames :: "jsstring list" where
  "inheritedNames = map js [''constructor'', ''__defineGetter__'', ''__defineSetter__'',
     ''hasOwnProperty'', ''__lookupGetter__'', ''__lookupSetter__'', ''isPrototypeOf'',
     ''propertyIsEnumerable'', ''toString'', ''valueOf'', ''__proto__'', ''toLocaleString'']"

datatype property = Falsy | Ranges "jsstring list" | NoMap

definition propertyOf :: "locationEntry \<Rightarrow> jsstring \<Rightarrow> property" where
  "propertyOf entry name =
     (if name = js ''link''
      then (case link entry of None \<Rightarrow> Falsy | Some l \<Rightarrow> if l = [] then Falsy else NoMap)
      else if name = js ''home'' then (if home entry = [] then Falsy else NoMap)
      else if name = js ''address'' then (if address entry = [] then Falsy else NoMap)
      else if name = js ''coordinates''
      then (case coordinates entry of None \<Rightarrow> Falsy | Some c \<Rightarrow> NoMap)
      else (case map_of (sched entry) name of
              Some xs \<Rightarrow> Ranges xs
            | None \<Rightarrow> if name \<in> set inheritedNames then NoMap else Falsy))"

text \<open>
  The three variables that line 437 takes from \<open>key.split('|')\<close>; one is \<open>undefined\<close> when
  the split has no element for it.
\<close>

definition element :: "jsstring list \<Rightarrow> nat \<Rightarrow> jsstring option" where
  "element xs i = (if i < length xs then Some (xs ! i) else None)"

text \<open>The callback of \<open>map\<close> at lines 444 to 447.\<close>

definition markRange :: "jsstring option \<Rightarrow> jsstring \<Rightarrow> jsstring" where
  "markRange time startEnd =
     (if prefix (textOf time) startEnd then startEnd @ js ''*'' else startEnd)"

text \<open>
  The callback of \<open>forEach\<close> at lines 438 to 448 for one location; a call of \<open>map\<close> on a
  value that has none throws a \<open>TypeError\<close>.
\<close>

definition markLocation ::
  "jsstring option \<Rightarrow> jsstring option \<Rightarrow> jsstring option \<Rightarrow> jsstring \<times> locationEntry \<Rightarrow>
     jsError + jsstring \<times> locationEntry" where
  "markLocation shortLocation day time e =
     (if \<not> includesStr (fst e) (textOf shortLocation) then Inr e
      else (case propertyOf (snd e) (textOf day) of
              Falsy \<Rightarrow> Inr e
            | NoMap \<Rightarrow> Inl TypeError
            | Ranges xs \<Rightarrow>
                Inr (fst e,
                     (snd e)\<lparr>sched := AList.update (textOf day) (map (markRange time) xs)
                                         (sched (snd e))\<rparr>)))"

fun markLocations ::
  "jsstring option \<Rightarrow> jsstring option \<Rightarrow> jsstring option \<Rightarrow> (jsstring \<times> locationEntry) list \<Rightarrow>
     jsError + (jsstring \<times> locationEntry) list" where
  "markLocations shortLocation day time [] = Inr []"
| "markLocations shortLocation day time (e # es) =
     (case markLocation shortLocation day time e of
        Inl err \<Rightarrow> Inl err
      | Inr e' \<Rightarrow>
          (case markLocations shortLocation day time es of
             Inl err \<Rightarrow> Inl err
           | Inr es' \<Rightarrow> Inr (e' # es')))"

text \<open>
  The loop over the keys of \<open>newTimes\<close> (lines 434 to 450), given as the list of its keys
  with their time stamps in enumeration order.  Each round reads the clock once.
\<close>

fun markNew ::
  "clock \<Rightarrow> nat \<Rightarrow> (jsstring \<times> int) list \<Rightarrow> (jsstring \<times> locationEntry) list \<Rightarrow>
     jsError + (jsstring \<times> locationEntry) list" where
  "markNew clk n [] acc = Inr acc"
| "markNew clk n (kv # rest) acc =
     (if clk n - snd kv < NEW_TIMESLOT
      then (case markLocations (element (splitStr (js ''|'') (fst kv)) 0)
                   (element (splitStr (js ''|'') (fst kv)) 1)
                   (element (splitStr (js ''|'') (fst kv)) 2) acc of
              Inl err \<Rightarrow> Inl err
            | Inr acc' \<Rightarrow> markNew clk (Suc n) rest acc')
      else markNew clk (Suc n) rest acc)"

section \<open>The persisted files\<close>

text \<open>
  A promise is settled once: \<open>resolve\<close> and \<open>reject\<close> have no effect on a promise that is
  fulfilled or rejected.
\<close>

datatype readError = ReadError jsstring

datatype 'a promise = Pending | Fulfilled 'a | Rejected readError

definition resolve :: "'a \<Rightarrow> 'a promise \<Rightarrow> 'a promise" where
  "resolve v p = (case p of Pending \<Rightarrow> Fulfilled v | Fulfilled w \<Rightarrow> p | Rejected e \<Rightarrow> p)"

definition reject :: "readError \<Rightarrow> 'a promise \<Rightarrow> 'a promise" where
  "reject e p = (case p of Pending \<Rightarrow> Rejected e | Fulfilled w \<Rightarrow> p | Rejected e' \<Rightarrow> p)"

text \<open>The values of \<open>JSON.parse\<close>; \<open>{}\<close> is \<open>JObject []\<close>.\<close>

datatype json =
  JNull | JBool bool | JNumber int | JString jsstring | JArray "json list"
  | JObject "(jsstring \<times> json) list"

text \<open>\<open>data || '{}'\<close>: \<open>data\<close> is \<open>undefined\<close> after a read error, and the empty text is falsy.\<close>

definition orEmptyObject :: "jsstring option \<Rightarrow> jsstring" where
  "orEmptyObject data =
     (case data of None \<Rightarrow> js ''{}'' | Some d \<Rightarrow> if d = [] then js ''{}'' else d)"

text \<open>
  The callback that both \<open>getPreviousTimes\<close> and \<open>getPreviousSchedule\<close> pass to
  \<open>readFile\<close> (lines 50 to 57 and 62 to 69), run on the pending promise.  \<open>JSON.parse\<close> is
  the parameter \<open>parse\<close>, with \<open>None\<close> for a thrown \<open>SyntaxError\<close>.  There is no \<open>return\<close>
  after \<open>reject(err)\<close>: the \<open>try\<close> block runs in either case.
\<close>

definition readCallback ::
  "(jsstring \<Rightarrow> json option) \<Rightarrow> readError option \<Rightarrow> jsstring option \<Rightarrow> json promise" where
  "readCallback parse err data =
     (case parse (orEmptyObject data) of
        Some v \<Rightarrow> resolve v (case err of Some e \<Rightarrow> reject e Pending | None \<Rightarrow> Pending)
      | None \<Rightarrow> resolve (JObject []) (case err of Some e \<Rightarrow> reject e Pending | None \<Rightarrow> Pending))"

text \<open>
  \<open>readFile(path, 'utf8', callback)\<close> over a file system that gives, for a path, either
  the error of the read or the text of the file.
\<close>

type_synonym fileSystem = "jsstring \<Rightarrow> readError + jsstring"

definition readFile ::
  "fileSystem \<Rightarrow> jsstring \<Rightarrow> (readError option \<Rightarrow> jsstring option \<Rightarrow> 'a) \<Rightarrow> 'a" where
  "readFile fs path callback =
     (case fs path of Inl e \<Rightarrow> callback (Some e) None | Inr d \<Rightarrow> callback None (Some d))"

definition getPreviousTimes :: "(jsstring \<Rightarrow> json option) \<Rightarrow> fileSystem \<Rightarrow> json promise" where
  "getPreviousTimes parse fs = readFile fs (js ''./cache/date-scraped.json'') (readCallback parse)"

definition getPreviousSchedule :: "(jsstring \<Rightarrow> json option) \<Rightarrow> fileSystem \<Rightarrow> json promise" where
  "getPreviousSchedule parse fs = readFile fs (js ''./cache/schedule.json'') (readCallback parse)"

text \<open>
  \<open>await p\<close> inside the \<open>try\<close> of \<open>main\<close>: the value of a fulfilled promise, or the jump
  to the \<open>catch\<close> block, which ends the run with \<open>process.exit(1)\<close>.
\<close>

definition await :: "'a promise \<Rightarrow> (readError + 'a) option" where
  "await p = (case p of Pending \<Rightarrow> None | Fulfilled v \<Rightarrow> Some (Inr v) | Rejected e \<Rightarrow> Some (Inl e))"

section \<open>Example data\<close>

definition exampleClock :: clock where
  "exampleClock n = 1700000000000 + int n"

definition laterClock :: clock where
  "laterClock n = 1700000600000 + int n"

definition exampleCurrent :: "(jsstring \<times> locationEntry) list" where
  "exampleCurrent =
     [(js ''Gym until May'',
       \<lparr>link = None, home = js ''h'', address = js ''a'', coordinates = None,
        sched = [(js ''Monday'', [js ''1 - 2 pm (Pickleball)'', js ''3 - 4 pm (Pickleball)''])]\<rparr>)]"

text \<open>
  A schedule whose location name has no caption keyword, and a previous table that has
  seen its range under the full name.
\<close>

definition sportsplexCurrent :: "(jsstring \<times> locationEntry) list" where
  "sportsplexCurrent =
     [(js ''Nepean Sportsplex'',
       \<lparr>link = None, home = js ''h'', address = js ''a'', coordinates = None,
        sched = [(js ''Monday'', [js ''1 - 2 pm (Pickleball)''])]\<rparr>)]"

definition sportsplexPrevious :: dateTable where
  "sportsplexPrevious = [js ''Nepean Sportsplex|Monday|1 - 2 pm'' \<mapsto> 1600000000000]"

definition examplePrevious :: dateTable where
  "examplePrevious = [js ''Gym|Monday|1 - 2 pm'' \<mapsto> 1600000000000,
      js ''Pool|Friday|6 - 7 pm'' \<mapsto> 1500000000000]"

text \<open>
  A table with the header \<open>Monday, Tuesday\<close> after an empty corner cell, and its row
  \<open>Pickleball | 1-2pm | 3-4:30pm\<close>, whose first cell is a header cell.
\<close>

definition mondayTuesday :: scheduleTable where
  "mondayTuesday =
     \<lparr>theadCells = [js '''', js ''Monday'', js ''Tuesday''],
      firstRowCells = [js ''1-2pm'', js ''3-4:30pm''],
      captionText = js ''''\<rparr>"

definition pickleballRow :: tableRow where
  "pickleballRow =
     \<lparr>headerCells = [js ''Pickleball''], dataCells = [js ''1-2pm'', js ''3-4:30pm'']\<rparr>"

definition gymPage :: facility where
  "gymPage = \<lparr>link = Some (js ''https://reserve.example''), home = js ''https://gym.example'',
     address = js ''1 Main Street'', coordinates = None\<rparr>"

text \<open>
  Two rows without a header cell: the activity name is the first data cell.  In the first
  the name begins with a number.
\<close>

definition fiftyPlusRow :: tableRow where
  "fiftyPlusRow =
     \<lparr>headerCells = [], dataCells = [js ''50+ Pickleball'', js ''6-8pm'', js ''Closed'']\<rparr>"

definition plainRow :: tableRow where
  "plainRow =
     \<lparr>headerCells = [], dataCells = [js ''Pickleball'', js ''1-2pm'', js ''3-4:30pm'']\<rparr>"

text \<open>
  For the evaluations of the file readers: a parser that takes the text \<open>{}\<close> as
  \<open>JSON.parse\<close> does and throws on every other text, a file system without files, and
  one whose two files hold a text that is not JSON.
\<close>

definition parseEmptyObject :: "jsstring \<Rightarrow> json option" where
  "parseEmptyObject s = (if s = js ''{}'' then Some (JObject []) else None)"

definition noFiles :: fileSystem where
  "noFiles path = Inl (ReadError (js ''ENOENT''))"

definition corruptFiles :: fileSystem where
  "corruptFiles path = Inr (js ''{broken'')"


definition weekendRow :: activitySchedule where
  "weekendRow =
     \<lparr>link = None, home = js ''h'', address = js ''a'', coordinates = None,
      location = js ''Gym'', activity = js ''Pickleball 50+'',
      schedules = [(js ''Monday'', [js ''9 - 10 am'']), (js ''undefined'', [js ''50+ pickleball'']),
                   (js ''Mon'', [js ''1 - 2 pm''])]\<rparr>"

text \<open>
  Two keys with their time stamps: the first is less than a week old on \<open>exampleClock\<close>,
  the second is older.
\<close>

definition stampedGym :: "(jsstring \<times> int) list" where
  "stampedGym = [(js ''Gym|Monday|9 - 10 am'', 1699999000000),
     (js ''Gym|Monday|7 - 8 pm'', 1600000000000)]"

section \<open>Evaluation rules\<close>

lemmas str_eval = js_def trim_def isWhite_def toLowerCase_def lowerUnit_def indexOf_def
  includesStr_def slice0_def sliceFrom_def splitStr.simps defaultDays_def captionWords_def
  captionAt_def searchCaption_def testCaption_def

lemmas table_eval = locationBaseName_def noveltyKey_def putKey_def buildDateTable_def

lemmas row_eval = str_eval replaceEnDash_def digitValue_def digitsValue_def unsignedInt_def
  parseInt_def textOf_def eveningsAndWeekends_def normaliseCell_def cellCandidates_def
  timeTokens_def getDays_def headName_def activityIsHead_def activityOf_def dayAt_def
  actualIndex_def cellSchedule_def rowCells_def addCell_def rowSchedules_def enumerate_eq_zip

lemmas page_eval = captionOf_def locationWithCaption_def extractRow_def pageActivities_def

lemmas aggregate_eval = str_eval labelRange_def substring0_def timeText_def timeOf_def
  compareTimes_def stableSort_def sortRanges_def existingRanges_def newRanges_def
  addActivity_def resultsByLocation_def isDigit_def decimal_def clockMinutes_def clock12_def
  specStartTime_def endText_def endTimeOf_def endKey_def rangeKey_def

lemmas file_eval = resolve_def reject_def orEmptyObject_def readCallback_def readFile_def
  getPreviousTimes_def getPreviousSchedule_def await_def js_def

lemmas mark_eval = NEW_TIMESLOT_def inheritedNames_def propertyOf_def element_def markRange_def
  markLocation_def textOf_def

section \<open>Properties of the novelty tracker\<close>

lemma stampOK_mono: "stampOK clk previous n k v \<Longrightarrow> n \<le> m \<Longrightarrow> stampOK clk previous m k v"
  unfolding stampOK_def by (auto split: option.splits if_splits intro: less_le_trans)

lemma putKey_dom: "dom (fst (putKey clk previous key st)) = insert key (dom (fst st))"
  by (cases st) (auto simp: putKey_def split: option.splits)

lemma putKey_OK:
  assumes "tableOK clk previous st"
  shows "tableOK clk previous (putKey clk previous key st)"
proof (cases st)
  case (Pair result n)
  show ?thesis
    unfolding tableOK_def
  proof (intro allI impI)
    fix k v
    assume kv: "fst (putKey clk previous key st) k = Some v"
    have mono: "n \<le> snd (putKey clk previous key st)"
      using Pair by (simp add: putKey_def split: option.splits)
    show "stampOK clk previous (snd (putKey clk previous key st)) k v"
    proof (cases "k = key")
      case True
      with kv Pair show ?thesis
        by (auto simp: putKey_def stampOK_def split: option.splits if_splits)
    next
      case False
      with kv Pair have "result k = Some v"
        by (auto simp: putKey_def split: option.splits if_splits)
      with assms Pair have "stampOK clk previous n k v" by (simp add: tableOK_def)
      then show ?thesis using mono by (rule stampOK_mono)
    qed
  qed
qed

lemma addTimes_dom:
  "dom (fst (addTimes clk previous name day ts st)) =
     dom (fst st) \<union> noveltyKey name day ` set ts"
  by (induction ts arbitrary: st) (auto simp: putKey_dom)

lemma addTimes_OK:
  "tableOK clk previous st \<Longrightarrow> tableOK clk previous (addTimes clk previous name day ts st)"
  by (induction ts arbitrary: st) (auto simp: putKey_OK)

lemma dayKeys_Nil: "dayKeys name loc [] = {}"
  by (simp add: dayKeys_def)

lemma dayKeys_Cons:
  "dayKeys name loc (d # ds) =
     (case map_of (sched loc) d of None \<Rightarrow> {} | Some ts \<Rightarrow> noveltyKey name d ` set ts)
       \<union> dayKeys name loc ds"
  unfolding dayKeys_def by (auto split: option.splits)

lemma addDays_dom:
  "dom (fst (addDays clk previous name loc ds st)) =
     dom (fst st) \<union> dayKeys name loc ds"
  by (induction ds arbitrary: st)
     (auto simp: dayKeys_Nil dayKeys_Cons addTimes_dom split: option.splits)

lemma addDays_OK:
  "tableOK clk previous st \<Longrightarrow> tableOK clk previous (addDays clk previous name loc ds st)"
  by (induction ds arbitrary: st) (auto simp: addTimes_OK split: option.splits)

lemma noveltyKeys_Nil: "noveltyKeys [] = {}"
  by (simp add: noveltyKeys_def)

lemma noveltyKeys_Cons:
  "noveltyKeys ((locationName, loc) # rest) =
     dayKeys (locationBaseName locationName) loc defaultDays \<union> noveltyKeys rest"
  unfolding noveltyKeys_def dayKeys_def by auto blast+

lemma addLocations_dom:
  "dom (fst (addLocations clk previous current st)) = dom (fst st) \<union> noveltyKeys current"
proof (induction current arbitrary: st)
  case Nil
  show ?case by (simp add: noveltyKeys_Nil)
next
  case (Cons entry rest)
  obtain locationName loc where entry: "entry = (locationName, loc)"
    by (cases entry)
  show ?case
    unfolding entry addLocations.simps Cons.IH addDays_dom noveltyKeys_Cons
    by (simp add: Un_assoc)
qed

lemma addLocations_OK:
  "tableOK clk previous st \<Longrightarrow> tableOK clk previous (addLocations clk previous current st)"
proof (induction current arbitrary: st)
  case Nil
  then show ?case by simp
next
  case (Cons entry rest)
  obtain locationName loc where entry: "entry = (locationName, loc)"
    by (cases entry)
  from Cons.prems
  have "tableOK clk previous
      (addDays clk previous (locationBaseName locationName) loc defaultDays st)"
    by (rule addDays_OK)
  then show ?case unfolding entry addLocations.simps by (rule Cons.IH)
qed

lemma buildDateTable_dom: "dom (fst (buildDateTable clk previous current)) = noveltyKeys current"
  by (simp add: buildDateTable_def addLocations_dom)

lemma buildDateTable_OK: "tableOK clk previous (buildDateTable clk previous current)"
  unfolding buildDateTable_def by (rule addLocations_OK) (simp add: tableOK_def)

lemma stampOK_nonzero:
  assumes "stampOK clk previous n k v" and "\<forall>i. clk i \<noteq> 0"
  shows "v \<noteq> 0"
  using assms unfolding stampOK_def by (auto split: option.splits if_splits)

lemma stampOK_carried:
  assumes "stampOK clk previous n k v" and "previous k = Some t" and "t \<noteq> 0"
  shows "v = t"
  using assms unfolding stampOK_def by simp

text \<open>
  Claim C1 at a schedule whose one location name has no caption keyword.  The key that the
  claim derives for its Monday range is built from the caption-stripped base name, which
  here is the whole name, and the previous table has that key with a time stamp.  The
  table that \<open>buildDateTable\<close> returns lacks the key: lines 479 and 480 cut the last
  character off the name, so the range is stored under another key, stamped with the
  clock's reading as if it had never been seen.
\<close>

theorem buildDateTable_drops_full_name_key:
  "noveltyKey (specBaseName (js ''Nepean Sportsplex'')) (js ''Monday'')
      (js ''1 - 2 pm (Pickleball)'') = js ''Nepean Sportsplex|Monday|1 - 2 pm'' \<and>
   sportsplexPrevious (js ''Nepean Sportsplex|Monday|1 - 2 pm'') = Some 1600000000000 \<and>
   fst (buildDateTable exampleClock sportsplexPrevious sportsplexCurrent)
      (js ''Nepean Sportsplex|Monday|1 - 2 pm'') = None \<and>
   fst (buildDateTable exampleClock sportsplexPrevious sportsplexCurrent)
      (js ''Nepean Sportsple|Monday|1 - 2 pm'') = Some 1700000000000"
  by (simp add: str_eval table_eval specBaseName_def sportsplexCurrent_def
      sportsplexPrevious_def exampleClock_def)

text \<open>
  Claim C7.  \<open>Date.now()\<close> is the number of milliseconds elapsed since the start of 1970,
  so no reading of the first run's clock is \<open>0\<close>.  Then, for every previous table and
  every current schedule, a second run over the same schedule, whatever its clock reads,
  with the first run's table as the previous one returns the first run's table.
\<close>

theorem buildDateTable_idempotent:
  assumes "\<forall>i. clk i \<noteq> 0"
  shows "fst (buildDateTable clk' (fst (buildDateTable clk previous current)) current)
    = fst (buildDateTable clk previous current)"
proof
  fix k
  let ?T = "fst (buildDateTable clk previous current)"
  let ?U = "fst (buildDateTable clk' ?T current)"
  have domT: "dom ?T = noveltyKeys current" and domU: "dom ?U = noveltyKeys current"
    by (rule buildDateTable_dom)+
  show "?U k = ?T k"
  proof (cases "k \<in> noveltyKeys current")
    case True
    with domT obtain v where v: "?T k = Some v" by blast
    from True domU obtain u where u: "?U k = Some u" by blast
    have "stampOK clk previous (snd (buildDateTable clk previous current)) k v"
      using buildDateTable_OK [of clk previous current] v by (simp add: tableOK_def)
    then have "v \<noteq> 0" using assms by (rule stampOK_nonzero)
    have "stampOK clk' ?T (snd (buildDateTable clk' ?T current)) k u"
      using buildDateTable_OK [of clk' ?T current] u by (simp add: tableOK_def)
    then have "u = v" using v \<open>v \<noteq> 0\<close> by (rule stampOK_carried)
    with u v show ?thesis by simp
  next
    case False
    with domT domU have "?T k = None" and "?U k = None" by blast+
    then show ?thesis by simp
  qed
qed

text \<open>The theorem at the example schedule, with a second run ten minutes later.\<close>

theorem buildDateTable_idempotent_witness:
  "(\<forall>i. exampleClock i \<noteq> 0) \<and>
   fst (buildDateTable laterClock
          (fst (buildDateTable exampleClock examplePrevious exampleCurrent)) exampleCurrent)
     = fst (buildDateTable exampleClock examplePrevious exampleCurrent) \<and>
   fst (buildDateTable exampleClock examplePrevious exampleCurrent) (js ''Gym|Monday|3 - 4 pm'')
     = Some 1700000000000"
proof -
  have pos: "\<forall>i. exampleClock i \<noteq> 0" by (simp add: exampleClock_def)
  have "fst (buildDateTable exampleClock examplePrevious exampleCurrent)
      (js ''Gym|Monday|3 - 4 pm'') = Some 1700000000000"
    by (simp add: str_eval table_eval exampleCurrent_def exampleClock_def examplePrevious_def)
  with pos buildDateTable_idempotent [OF pos, of laterClock examplePrevious exampleCurrent]
  show ?thesis by simp
qed

text \<open>
  Claim C2 at a location name without a caption keyword: \<open>search\<close> returns \<open>-1\<close>, and
  \<open>slice(0, -1)\<close> cuts the last character off the name.
\<close>

theorem locationBaseName_drops_last_character:
  "searchCaption (js ''Nepean Sportsplex'') = - 1 \<and>
   locationBaseName (js ''Nepean Sportsplex'') = js ''Nepean Sportsple''"
  by (simp add: str_eval table_eval)

section \<open>Properties of the time token parser and of the row extractor\<close>

lemma indexFrom_sublist: "indexFrom i w s \<noteq> - 1 \<longleftrightarrow> sublist w s"
  by (induction s arbitrary: i) (auto simp: sublist_Cons_right)

lemma includesStr_sublist: "includesStr s w \<longleftrightarrow> sublist w s"
  by (simp add: includesStr_def indexOf_def indexFrom_sublist)

lemma replaceAll_prefix:
  "set q \<inter> set rep = {} \<Longrightarrow> rep \<noteq> [] \<Longrightarrow> prefix q (replaceAll pat rep s) \<Longrightarrow> prefix q s"
proof (induction pat rep s arbitrary: q rule: replaceAll.induct)
  case (1 pat rep)
  then show ?case by simp
next
  case (2 pat rep c cs)
  show ?case
  proof (cases "pat \<noteq> [] \<and> prefix pat (c # cs)")
    case True
    with "2.prems" have "prefix q (rep @ replaceAll pat rep (drop (length pat) (c # cs)))"
      by simp
    moreover obtain r rs where "rep = r # rs" using "2.prems"(2) by (cases rep) auto
    ultimately have "q = []" using "2.prems"(1) by (cases q) auto
    then show ?thesis by simp
  next
    case False
    with "2.prems" have p: "prefix q (c # replaceAll pat rep cs)" by auto
    show ?thesis
    proof (cases q)
      case Nil
      then show ?thesis by simp
    next
      case (Cons x q')
      with p have "x = c" and "prefix q' (replaceAll pat rep cs)" by simp_all
      moreover have "set q' \<inter> set rep = {}" using "2.prems"(1) Cons by auto
      ultimately have "prefix q' cs" using "2.IH"(2) [OF False] "2.prems"(2) by blast
      with \<open>x = c\<close> Cons show ?thesis by simp
    qed
  qed
qed

lemma sublist_skip_foreign:
  "set w \<inter> set rep = {} \<Longrightarrow> w \<noteq> [] \<Longrightarrow> sublist w (rep @ ys) \<Longrightarrow> sublist w ys"
proof (induction rep)
  case Nil
  then show ?case by simp
next
  case (Cons r rep)
  from Cons.prems(1,2) have "\<not> prefix w (r # rep @ ys)" by (cases w) auto
  with Cons.prems(3) have "sublist w (rep @ ys)" by (simp add: sublist_Cons_right)
  moreover have "set w \<inter> set rep = {}" using Cons.prems(1) by auto
  ultimately show ?case using Cons.IH Cons.prems(2) by blast
qed

lemma replaceAll_no_pat:
  "set pat \<inter> set rep = {} \<Longrightarrow> rep \<noteq> [] \<Longrightarrow> pat \<noteq> [] \<Longrightarrow>
     \<not> sublist pat (replaceAll pat rep s)"
proof (induction pat rep s rule: replaceAll.induct)
  case (1 pat rep)
  then show ?case by simp
next
  case (2 pat rep c cs)
  show ?case
  proof (cases "prefix pat (c # cs)")
    case True
    with "2.prems" have "\<not> sublist pat (replaceAll pat rep (drop (length pat) (c # cs)))"
      using "2.IH"(1) by blast
    then have "\<not> sublist pat (rep @ replaceAll pat rep (drop (length pat) (c # cs)))"
      using sublist_skip_foreign [OF "2.prems"(1,3)] by blast
    with True "2.prems"(3) show ?thesis by simp
  next
    case False
    with "2.prems" have ih: "\<not> sublist pat (replaceAll pat rep cs)"
      using "2.IH"(2) by blast
    have "\<not> prefix pat (c # replaceAll pat rep cs)"
    proof
      assume p: "prefix pat (c # replaceAll pat rep cs)"
      from "2.prems"(3) obtain x q where pat: "pat = x # q" by (cases pat) auto
      with p have "x = c" and "prefix q (replaceAll pat rep cs)" by auto
      moreover have "set q \<inter> set rep = {}" using "2.prems"(1) pat by auto
      ultimately have "prefix q cs" using replaceAll_prefix "2.prems"(2) by blast
      with \<open>x = c\<close> pat False show False by simp
    qed
    with ih False show ?thesis by (simp add: sublist_Cons_right)
  qed
qed

lemma replaceAll_has_rep:
  "pat \<noteq> [] \<Longrightarrow> sublist pat s \<Longrightarrow> sublist rep (replaceAll pat rep s)"
proof (induction pat rep s rule: replaceAll.induct)
  case (1 pat rep)
  then show ?case by simp
next
  case (2 pat rep c cs)
  show ?case
  proof (cases "prefix pat (c # cs)")
    case True
    with "2.prems"(1) show ?thesis by simp
  next
    case False
    with "2.prems" have "sublist pat cs" by (simp add: sublist_Cons_right)
    with "2.IH"(2) False "2.prems"(1) have "sublist rep (replaceAll pat rep cs)" by blast
    with False show ?thesis by (simp add: sublist_Cons_right)
  qed
qed

lemma replaceEnDash_fixes:
  "8211 \<notin> set w \<Longrightarrow> replaceEnDash w = w"
  by (induction w) (auto simp: replaceEnDash_def)

lemma replaceEnDash_origin:
  "replaceEnDash v = w \<Longrightarrow> 45 \<notin> set w \<Longrightarrow> v = w"
  by (induction v arbitrary: w) (auto simp: replaceEnDash_def split: if_splits)

lemma replaceEnDash_sublist_back:
  assumes "sublist w (replaceEnDash s)" and "45 \<notin> set w"
  shows "sublist w s"
proof -
  from assms(1) obtain v where "sublist v s" and "w = replaceEnDash v"
    unfolding replaceEnDash_def by (auto dest: sublist_map_rightE)
  with assms(2) replaceEnDash_origin [of v w] show ?thesis by simp
qed

lemma replaceEnDash_sublist_fwd:
  assumes "sublist w s" and "8211 \<notin> set w"
  shows "sublist w (replaceEnDash s)"
proof -
  from assms(1) have "sublist (replaceEnDash w) (replaceEnDash s)"
    unfolding replaceEnDash_def by (rule map_mono_sublist)
  with assms(2) show ?thesis by (simp add: replaceEnDash_fixes)
qed

lemma spaceDash_prefix_back:
  "prefix q (spaceDash s) \<Longrightarrow> 32 \<notin> set q \<Longrightarrow> prefix q s"
proof (induction s arbitrary: q rule: spaceDash.induct)
  case (1 a b c rest)
  show ?case
  proof (cases "a \<noteq> 32 \<and> b = 45 \<and> c \<noteq> 32")
    case True
    with "1.prems" show ?thesis by (cases q; cases "tl q") auto
  next
    case False
    with "1.prems" "1.IH"(2) [OF False] show ?thesis by (cases q) auto
  qed
qed simp_all

lemma spaceDash_sublist_back:
  "sublist w (spaceDash s) \<Longrightarrow> 32 \<notin> set w \<Longrightarrow> sublist w s"
proof (induction s rule: spaceDash.induct)
  case (1 a b c rest)
  show ?case
  proof (cases "prefix w (spaceDash (a # b # c # rest))")
    case True
    with "1.prems"(2) show ?thesis by (blast dest: spaceDash_prefix_back)
  next
    case noprefix: False
    show ?thesis
    proof (cases "a \<noteq> 32 \<and> b = 45 \<and> c \<noteq> 32")
      case True
      with "1.prems"(1) noprefix
      have "sublist w (32 # 45 # 32 # c # spaceDash rest)"
        by (simp add: sublist_Cons_right)
      then consider "w = []" | "w = [45]" | "prefix w (c # spaceDash rest)"
        | "sublist w (spaceDash rest)"
        using "1.prems"(2) by (cases w; cases "tl w") (auto simp: sublist_Cons_right)
      then show ?thesis
      proof cases
        case 1 then show ?thesis by simp
      next
        case 2
        have "sublist [45] ([a] @ [45] @ (c # rest))" by (rule sublist_appendI)
        with 2 True show ?thesis by simp
      next
        case 3
        show ?thesis
        proof (cases w)
          case Nil then show ?thesis by simp
        next
          case (Cons x w')
          with 3 "1.prems"(2) have "x = c" "prefix w' (spaceDash rest)" "32 \<notin> set w'"
            by auto
          then have "prefix w' rest" by (blast dest: spaceDash_prefix_back)
          with \<open>x = c\<close> Cons have "prefix w (c # rest)" by simp
          then show ?thesis by (simp add: sublist_Cons_right)
        qed
      next
        case 4
        with "1.IH"(1) [OF True] "1.prems"(2) have "sublist w rest" by blast
        then show ?thesis by (simp add: sublist_Cons_right)
      qed
    next
      case False
      with "1.prems"(1) noprefix have "sublist w (spaceDash (b # c # rest))"
        by (simp add: sublist_Cons_right)
      with "1.IH"(2) [OF False] "1.prems"(2) have "sublist w (b # c # rest)" by blast
      then show ?thesis by (simp add: sublist_Cons_right [of w a])
    qed
  qed
qed simp_all

lemma spaceDash_prefix_fwd:
  "prefix w s \<Longrightarrow> 45 \<notin> set w \<Longrightarrow> prefix w (spaceDash s)"
proof (induction s arbitrary: w rule: spaceDash.induct)
  case (1 a b c rest)
  show ?case
  proof (cases "a \<noteq> 32 \<and> b = 45 \<and> c \<noteq> 32")
    case True
    with "1.prems" show ?thesis by (cases w; cases "tl w") auto
  next
    case False
    with "1.prems" "1.IH"(2) [OF False] show ?thesis by (cases w) auto
  qed
qed simp_all

lemma spaceDash_sublist_fwd:
  "sublist w s \<Longrightarrow> 45 \<notin> set w \<Longrightarrow> sublist w (spaceDash s)"
proof (induction s rule: spaceDash.induct)
  case (1 a b c rest)
  show ?case
  proof (cases "prefix w (a # b # c # rest)")
    case True
    with "1.prems"(2) show ?thesis by (blast intro: spaceDash_prefix_fwd prefix_imp_sublist)
  next
    case noprefix: False
    with "1.prems"(1) have tail: "sublist w (b # c # rest)" by (simp add: sublist_Cons_right)
    show ?thesis
    proof (cases "a \<noteq> 32 \<and> b = 45 \<and> c \<noteq> 32")
      case True
      from tail True "1.prems"(2)
      consider "w = []" | "prefix w (c # rest)" | "sublist w rest"
        by (cases w) (auto simp: sublist_Cons_right)
      then have "sublist w (c # spaceDash rest)"
      proof cases
        case 1 then show ?thesis by simp
      next
        case 2
        show ?thesis
        proof (cases w)
          case Nil then show ?thesis by simp
        next
          case (Cons x w')
          with 2 "1.prems"(2) have "x = c" "prefix w' rest" "45 \<notin> set w'" by auto
          then have "prefix w' (spaceDash rest)" by (blast intro: spaceDash_prefix_fwd)
          with \<open>x = c\<close> Cons show ?thesis by (simp add: sublist_Cons_right)
        qed
      next
        case 3
        with "1.IH"(1) [OF True] "1.prems"(2) show ?thesis by (simp add: sublist_Cons_right)
      qed
      then have "sublist w ([a, 32, 45, 32] @ (c # spaceDash rest))"
        by (meson sublist_order.order_trans sublist_append_leftI)
      with True show ?thesis by simp
    next
      case False
      then have eq: "spaceDash (a # b # c # rest) = a # spaceDash (b # c # rest)" by auto
      from tail "1.IH"(2) [OF False] "1.prems"(2) have "sublist w (spaceDash (b # c # rest))"
        by blast
      then show ?thesis unfolding eq by (simp add: sublist_Cons_right [of w a])
    qed
  qed
qed simp_all

lemma splitCell_pieces:
  "p \<in> set (splitCell cur s) \<Longrightarrow> sublist p (rev cur @ s)"
proof (induction cur s rule: splitCell.induct)
  case (1 cur)
  then show ?case by simp
next
  case (2 cur c cs)
  show ?case
  proof (cases "c = 44")
    case True
    with "2.prems" consider "p = rev cur" | "p = [c]" | "p \<in> set (splitCell [] cs)" by auto
    then show ?thesis
    proof cases
      case 1 then show ?thesis by simp
    next
      case 2
      have "sublist [c] (rev cur @ [c] @ cs)" by (rule sublist_appendI)
      with 2 show ?thesis by simp
    next
      case 3
      with "2.IH"(1) [OF True] have "sublist p cs" by simp
      then have "sublist p ((rev cur @ [c]) @ cs)"
        by (meson sublist_order.order_trans sublist_append_leftI)
      then show ?thesis by simp
    qed
  next
    case notcomma: False
    show ?thesis
    proof (cases "c = 10")
      case True
      with notcomma "2.prems"
      consider "p = rev cur" | "p = c # takeWhile (\<lambda>d. d = 10) cs"
        | "p \<in> set (splitCell [] (dropWhile (\<lambda>d. d = 10) cs))" by auto
      then show ?thesis
      proof cases
        case 1 then show ?thesis by simp
      next
        case 2
        have "prefix (c # takeWhile (\<lambda>d. d = 10) cs) (c # cs)"
          by (simp add: takeWhile_is_prefix)
        then have "sublist p (c # cs)" using 2 by blast
        then show ?thesis by (meson sublist_order.order_trans sublist_append_leftI)
      next
        case 3
        with "2.IH"(2) [OF notcomma True] have "sublist p (dropWhile (\<lambda>d. d = 10) cs)" by simp
        then have "sublist p cs" by (meson sublist_order.order_trans sublist_dropWhile)
        then have "sublist p ((rev cur @ [c]) @ cs)"
          by (meson sublist_order.order_trans sublist_append_leftI)
        then show ?thesis by simp
      qed
    next
      case False
      with notcomma "2.prems" "2.IH"(3) [OF notcomma False] show ?thesis by simp
    qed
  qed
qed

lemma sublist_avoids:
  "sublist w (xs @ c # ys) \<Longrightarrow> c \<notin> set w \<Longrightarrow> sublist w xs \<or> sublist w ys"
proof (induction xs)
  case Nil
  then show ?case by (cases w) (auto simp: sublist_Cons_right)
next
  case (Cons x xs)
  from Cons.prems(1) have "prefix w (x # xs @ c # ys) \<or> sublist w (xs @ c # ys)"
    by (simp add: sublist_Cons_right)
  then show ?case
  proof
    assume "prefix w (x # xs @ c # ys)"
    then have "prefix w ((x # xs) @ (c # ys))" by simp
    then have "prefix w (x # xs) \<or> (\<exists>us. w = (x # xs) @ us \<and> prefix us (c # ys))"
      unfolding prefix_append by blast
    then show ?thesis
    proof
      assume "prefix w (x # xs)" then show ?thesis by blast
    next
      assume "\<exists>us. w = (x # xs) @ us \<and> prefix us (c # ys)"
      then obtain us where w: "w = (x # xs) @ us" and us: "prefix us (c # ys)" by blast
      from us Cons.prems(2) w have "us = []" by (cases us) auto
      with w have "prefix w (x # xs)" by simp
      then show ?thesis by blast
    qed
  next
    assume "sublist w (xs @ c # ys)"
    with Cons.IH Cons.prems(2) have "sublist w xs \<or> sublist w ys" by blast
    then show ?thesis by (auto simp: sublist_Cons_right)
  qed
qed

lemma sublist_dropWhile_foreign:
  "sublist w s \<Longrightarrow> w \<noteq> [] \<Longrightarrow> \<not> P (hd w) \<Longrightarrow> sublist w (dropWhile P s)"
proof (induction s)
  case Nil
  then show ?case by simp
next
  case (Cons c cs)
  show ?case
  proof (cases "P c")
    case True
    with Cons.prems have "\<not> prefix w (c # cs)" by (cases w) auto
    with Cons.prems(1) have "sublist w cs" by (simp add: sublist_Cons_right)
    with Cons.IH Cons.prems True show ?thesis by simp
  next
    case False
    with Cons.prems(1) show ?thesis by simp
  qed
qed

lemma splitCell_keeps:
  "sublist w (rev cur @ s) \<Longrightarrow> w \<noteq> [] \<Longrightarrow> 44 \<notin> set w \<Longrightarrow> 10 \<notin> set w \<Longrightarrow>
     \<exists>p\<in>set (splitCell cur s). sublist w p"
proof (induction cur s rule: splitCell.induct)
  case (1 cur)
  then show ?case by simp
next
  case (2 cur c cs)
  show ?case
  proof (cases "c = 44")
    case True
    with "2.prems" have "sublist w (rev cur) \<or> sublist w cs"
      using sublist_avoids [of w "rev cur" c cs] by simp
    then show ?thesis
    proof
      assume "sublist w (rev cur)" with True show ?thesis by simp
    next
      assume "sublist w cs"
      with "2.IH"(1) [OF True] "2.prems" True show ?thesis by simp
    qed
  next
    case notcomma: False
    show ?thesis
    proof (cases "c = 10")
      case True
      with "2.prems" have "sublist w (rev cur) \<or> sublist w cs"
        using sublist_avoids [of w "rev cur" c cs] by simp
      then show ?thesis
      proof
        assume "sublist w (rev cur)" with True notcomma show ?thesis by simp
      next
        assume "sublist w cs"
        moreover have "\<not> (\<lambda>d. d = 10) (hd w)" using "2.prems"(2,4) by (cases w) auto
        ultimately have "sublist w (dropWhile (\<lambda>d. d = 10) cs)"
          using "2.prems"(2) by (blast intro: sublist_dropWhile_foreign)
        with "2.IH"(2) [OF notcomma True] "2.prems" True notcomma show ?thesis by simp
      qed
    next
      case False
      with notcomma "2.prems" "2.IH"(3) [OF notcomma False] show ?thesis by simp
    qed
  qed
qed

lemma trim_sublist: "sublist (trim s) s"
proof -
  have "sublist (rev (dropWhile isWhite (rev (dropWhile isWhite s)))) (dropWhile isWhite s)"
    by (simp add: sublist_rev_left)
  then show ?thesis
    unfolding trim_def by (meson sublist_order.order_trans sublist_dropWhile)
qed

lemma trim_keeps:
  assumes "sublist w s" and "w \<noteq> []" and "\<not> isWhite (hd w)" and "\<not> isWhite (last w)"
  shows "sublist w (trim s)"
proof -
  from assms(1-3) have "sublist w (dropWhile isWhite s)"
    by (rule sublist_dropWhile_foreign)
  then have "sublist (rev w) (rev (dropWhile isWhite s))" by simp
  moreover have "rev w \<noteq> []" and "\<not> isWhite (hd (rev w))"
    using assms(2,4) by (simp_all add: hd_rev)
  ultimately have "sublist (rev w) (dropWhile isWhite (rev (dropWhile isWhite s)))"
    by (blast intro: sublist_dropWhile_foreign)
  then show ?thesis unfolding trim_def by (simp add: sublist_rev_right)
qed

lemma normaliseCell_no_noon: "\<not> sublist (js ''noon'') (normaliseCell text)"
proof
  assume "sublist (js ''noon'') (normaliseCell text)"
  then have "sublist (js ''noon'')
      (replaceEnDash (replaceAll (js ''noon'') (js ''12 pm'') (toLowerCase text)))"
    unfolding normaliseCell_def by (rule spaceDash_sublist_back) (simp add: js_def)
  then have "sublist (js ''noon'') (replaceAll (js ''noon'') (js ''12 pm'') (toLowerCase text))"
    by (rule replaceEnDash_sublist_back) (simp add: js_def)
  moreover have "\<not> sublist (js ''noon'')
      (replaceAll (js ''noon'') (js ''12 pm'') (toLowerCase text))"
    by (rule replaceAll_no_pat) (simp_all add: js_def)
  ultimately show False by simp
qed

lemma normaliseCell_has_12pm:
  assumes "sublist (js ''noon'') (toLowerCase text)"
  shows "sublist (js ''12 pm'') (normaliseCell text)"
proof -
  have "sublist (js ''12 pm'') (replaceAll (js ''noon'') (js ''12 pm'') (toLowerCase text))"
    using _ assms by (rule replaceAll_has_rep) (simp add: js_def)
  then have "sublist (js ''12 pm'')
      (replaceEnDash (replaceAll (js ''noon'') (js ''12 pm'') (toLowerCase text)))"
    by (rule replaceEnDash_sublist_fwd) (simp add: js_def)
  then show ?thesis
    unfolding normaliseCell_def by (rule spaceDash_sublist_fwd) (simp add: js_def)
qed

lemma cellCandidates_no_noon:
  assumes "c \<in> set (cellCandidates text)"
  shows "\<not> sublist (js ''noon'') c"
proof
  assume noon: "sublist (js ''noon'') c"
  from assms obtain p where p: "p \<in> set (splitCell [] (normaliseCell text))" and c: "c = trim p"
    unfolding cellCandidates_def by auto
  from p have "sublist p (normaliseCell text)" using splitCell_pieces [of p "[]"] by simp
  moreover have "sublist c p" unfolding c by (rule trim_sublist)
  ultimately have "sublist (js ''noon'') (normaliseCell text)"
    using noon by (meson sublist_order.order_trans)
  then show False using normaliseCell_no_noon by blast
qed

lemma cellCandidates_has_12pm:
  assumes "sublist (js ''noon'') (toLowerCase text)"
  shows "\<exists>c\<in>set (cellCandidates text). sublist (js ''12 pm'') c"
proof -
  from assms have "sublist (js ''12 pm'') (rev [] @ normaliseCell text)"
    by (simp add: normaliseCell_has_12pm)
  then obtain p where p: "p \<in> set (splitCell [] (normaliseCell text))"
      and sub: "sublist (js ''12 pm'') p"
    using splitCell_keeps [of "js ''12 pm''" "[]" "normaliseCell text"] by (auto simp: js_def)
  from sub have "sublist (js ''12 pm'') (trim p)"
    by (rule trim_keeps) (simp_all add: js_def isWhite_def)
  with p show ?thesis unfolding cellCandidates_def by auto
qed

text \<open>
  Claim C8, as the code has it.  For every text of a cell, whatever the flag and the day,
  no token of the output contains \<open>noon\<close>.  When the text contains \<open>noon\<close> in any
  letter case, one of the trimmed elements of the split contains \<open>12 pm\<close>; it is a token
  of the output exactly when \<open>parseInt\<close> finds an integer at its start and, with the
  evenings and weekends flag on, it passes that filter.
\<close>

theorem timeTokens_noon:
  "(\<forall>t\<in>set (timeTokens flagE day text). \<not> includesStr t (js ''noon'')) \<and>
   (includesStr (toLowerCase text) (js ''noon'') \<longrightarrow>
      (\<exists>c\<in>set (cellCandidates text). includesStr c (js ''12 pm'') \<and>
         (c \<in> set (timeTokens flagE day text) \<longleftrightarrow>
            parseInt c \<noteq> None \<and> (flagE \<longrightarrow> eveningsAndWeekends day c))))"
proof (intro conjI ballI impI)
  fix t
  assume "t \<in> set (timeTokens flagE day text)"
  then have "t \<in> set (cellCandidates text)" by (simp add: timeTokens_def)
  then show "\<not> includesStr t (js ''noon'')"
    unfolding includesStr_sublist by (rule cellCandidates_no_noon)
next
  assume "includesStr (toLowerCase text) (js ''noon'')"
  then obtain c where c: "c \<in> set (cellCandidates text)" and "sublist (js ''12 pm'') c"
    unfolding includesStr_sublist using cellCandidates_has_12pm by blast
  moreover from c have "c \<in> set (timeTokens flagE day text) \<longleftrightarrow>
      parseInt c \<noteq> None \<and> (flagE \<longrightarrow> eveningsAndWeekends day c)"
    by (auto simp: timeTokens_def)
  ultimately show "\<exists>c\<in>set (cellCandidates text). includesStr c (js ''12 pm'') \<and>
         (c \<in> set (timeTokens flagE day text) \<longleftrightarrow>
            parseInt c \<noteq> None \<and> (flagE \<longrightarrow> eveningsAndWeekends day c))"
    unfolding includesStr_sublist by blast
qed

text \<open>
  The theorem at the cell \<open>Ends at noon, Noon - 2pm\<close>: the element \<open>ends at 12 pm\<close> is
  dropped, the element \<open>12 pm - 2pm\<close> is the output, and it does not contain \<open>noon\<close>.
\<close>

theorem timeTokens_noon_witness:
  "includesStr (toLowerCase (js ''Ends at noon, 1-2pm'')) (js ''noon'') \<and>
   cellCandidates (js ''Ends at noon, 1-2pm'') = [js ''ends at 12 pm'', js '','', js ''1 - 2pm''] \<and>
   parseInt (js ''ends at 12 pm'') = None \<and>
   js ''ends at 12 pm'' \<notin> set (timeTokens False (Some (js ''Monday'')) (js ''Ends at noon, 1-2pm'')) \<and>
   timeTokens False (Some (js ''Monday'')) (js ''Noon - 2pm'') = [js ''12 pm - 2pm''] \<and>
   \<not> includesStr (js ''12 pm - 2pm'') (js ''noon'')"
proof -
  let ?text = "js ''Ends at noon, 1-2pm''"
  let ?day = "Some (js ''Monday'')"
  have a: "includesStr (toLowerCase ?text) (js ''noon'')"
    by (simp add: row_eval)
  have cands: "cellCandidates ?text = [js ''ends at 12 pm'', js '','', js ''1 - 2pm'']"
    by (simp add: row_eval)
  have none: "parseInt (js ''ends at 12 pm'') = None"
    by (simp add: row_eval)
  have others: "\<not> includesStr (js '','') (js ''12 pm'')"
    "\<not> includesStr (js ''1 - 2pm'') (js ''12 pm'')"
    by (simp_all add: row_eval)
  from timeTokens_noon [of False ?day ?text] a obtain c where
    c: "c \<in> set (cellCandidates ?text)" and twelve: "includesStr c (js ''12 pm'')" and
    iff: "c \<in> set (timeTokens False ?day ?text) \<longleftrightarrow>
      parseInt c \<noteq> None \<and> (False \<longrightarrow> eveningsAndWeekends ?day c)"
    by blast
  from c twelve others have "c = js ''ends at 12 pm''" unfolding cands by auto
  with iff none have dropped: "js ''ends at 12 pm'' \<notin> set (timeTokens False ?day ?text)"
    by simp
  have b: "timeTokens False ?day (js ''Noon - 2pm'') = [js ''12 pm - 2pm'']"
    by (simp add: row_eval)
  from timeTokens_noon [of False ?day "js ''Noon - 2pm''"] b
  have "\<not> includesStr (js ''12 pm - 2pm'') (js ''noon'')" by simp
  with a cands none dropped b show ?thesis by simp
qed

text \<open>
  Claim C8 as stated fails at the cell \<open>Ends at noon\<close>: the one element of the split is
  \<open>ends at 12 pm\<close>, which does not begin with an integer, and the output is empty.
\<close>

theorem timeTokens_noon_dropped:
  "includesStr (js ''Ends at noon'') (js ''noon'') \<and>
   timeTokens False (Some (js ''Monday'')) (js ''Ends at noon'') = []"
  by (simp add: row_eval)

lemma rowCells_nth:
  assumes "i < length (dataCells r)"
  shows "rowCells flagE days r ! i =
    (dayAt days (actualIndex (activityIsHead r) i),
     timeTokens flagE (dayAt days (actualIndex (activityIsHead r) i)) (dataCells r ! i))"
  using assms by (simp add: rowCells_def cellSchedule_def nth_enumerate_eq)

text \<open>
  Claim C5, as the code has it.  For every row and every index \<open>i\<close> of a data cell: when
  the text of the row's header cells is not empty, the cell is aligned to the day label at
  index \<open>i\<close>; when the row has no header text, to the day label at index \<open>i - 1\<close>.  The
  tokens of the cell are those of its text, filtered for that day.
\<close>

theorem rowCells_alignment:
  "i < length (dataCells r) \<Longrightarrow>
   fst (rowCells flagE days r ! i) =
     (if headName r \<noteq> [] then dayAt days (int i) else dayAt days (int i - 1)) \<and>
   snd (rowCells flagE days r ! i) =
     timeTokens flagE (fst (rowCells flagE days r ! i)) (dataCells r ! i)"
  by (simp add: rowCells_nth actualIndex_def activityIsHead_def)

text \<open>The theorem at the second data cell of a row with a header cell and of one without.\<close>

theorem rowCells_alignment_witness:
  "(1::nat) < length (dataCells pickleballRow) \<and> headName pickleballRow \<noteq> [] \<and>
   fst (rowCells False [js ''Monday'', js ''Tuesday''] pickleballRow ! 1) = Some (js ''Tuesday'') \<and>
   (1::nat) < length (dataCells plainRow) \<and> headName plainRow = [] \<and>
   fst (rowCells False [js ''Monday'', js ''Tuesday''] plainRow ! 1) = Some (js ''Monday'')"
proof -
  have a: "(1::nat) < length (dataCells pickleballRow)" by (simp add: pickleballRow_def)
  have b: "(1::nat) < length (dataCells plainRow)" by (simp add: plainRow_def)
  have c: "headName pickleballRow \<noteq> []" by (simp add: headName_def pickleballRow_def js_def)
  have d: "headName plainRow = []" by (simp add: headName_def plainRow_def)
  from rowCells_alignment [OF a, of False "[js ''Monday'', js ''Tuesday'']"]
       rowCells_alignment [OF b, of False "[js ''Monday'', js ''Tuesday'']"] a b c d
  show ?thesis by (simp add: dayAt_def)
qed

text \<open>
  Claim C5 as stated fails in both directions.  In the row with the header cell
  \<open>Pickleball\<close> the data cell at index \<open>1\<close> is aligned to \<open>Tuesday\<close>, the label at index
  \<open>1\<close> and not \<open>0\<close>.  In the row without a header cell the data cell at index \<open>1\<close> is
  aligned to \<open>Monday\<close>, the label at index \<open>0\<close> and not \<open>1\<close>, and the cell at index \<open>0\<close>
  has no day.
\<close>

theorem header_row_offset_zero:
  "headName pickleballRow = js ''Pickleball'' \<and>
   map fst (rowCells False [js ''Monday'', js ''Tuesday''] pickleballRow)
     = [Some (js ''Monday''), Some (js ''Tuesday'')] \<and>
   headName plainRow = [] \<and>
   map fst (rowCells False [js ''Monday'', js ''Tuesday''] plainRow)
     = [None, Some (js ''Monday''), Some (js ''Tuesday'')]"
  by (simp add: row_eval pickleballRow_def plainRow_def)

text \<open>
  Claim C6.  The day labels of the table resolve to \<open>Monday, Tuesday\<close>, and with the
  evenings and weekends filter off, as by default, the row \<open>Pickleball | 1-2pm | 3-4:30pm\<close>
  with a header cell gives the schedule object \<open>{Monday: ["1 - 2pm"], Tuesday: ["3 - 4:30pm"]}\<close>
  and the activity name \<open>Pickleball\<close>; the page that has this one matching row gives the
  one activity with that schedule and that name.
\<close>

theorem header_row_scenario:
  "getDays mondayTuesday = [js ''Monday'', js ''Tuesday''] \<and>
   rowSchedules False (getDays mondayTuesday) pickleballRow
     = [(js ''Monday'', [js ''1 - 2pm'']), (js ''Tuesday'', [js ''3 - 4:30pm''])] \<and>
   activityOf pickleballRow = js ''Pickleball'' \<and>
   pageActivities False gymPage (js ''Gym'') [(mondayTuesday, pickleballRow)]
     = [\<lparr>link = link gymPage, home = home gymPage, address = address gymPage,
         coordinates = None, location = js ''Gym'', activity = js ''Pickleball'',
         schedules = [(js ''Monday'', [js ''1 - 2pm'']), (js ''Tuesday'', [js ''3 - 4:30pm''])]\<rparr>]"
  by (simp add: row_eval page_eval mondayTuesday_def pickleballRow_def)

lemma update_entries:
  "(k', v') \<in> set (AList.update k v al) \<Longrightarrow> (k', v') = (k, v) \<or> (k', v') \<in> set al"
  by (induction al) (auto split: if_splits)

text \<open>
  Claim C9 at a row without a header cell whose activity name begins with a number.  By
  the claim the schedule object of the row has no key outside the days, and the name cell
  contributes none.  In the code the name cell has the index \<open>-1\<close> among the days and is left out only when
  its text yields no token; here \<open>parseInt\<close> reads \<open>50\<close> at its start, and the cell writes
  the property \<open>undefined\<close>, which is not one of the days.
\<close>

theorem rowSchedules_undefined_key:
  "rowSchedules False [js ''Monday'', js ''Tuesday''] fiftyPlusRow
     = [(js ''undefined'', [js ''50+ pickleball'']), (js ''Monday'', [js ''6 - 8pm''])] \<and>
   js ''undefined'' \<notin> set [js ''Monday'', js ''Tuesday'']"
  by (simp add: row_eval fiftyPlusRow_def)

section \<open>Properties of the file readers\<close>

lemma readCallback_error: "readCallback parse (Some e) data = Rejected e"
  by (simp add: readCallback_def reject_def resolve_def split: option.splits)

lemma readCallback_corrupt:
  "parse (orEmptyObject data) = None \<Longrightarrow> readCallback parse None data = Fulfilled (JObject [])"
  by (simp add: readCallback_def resolve_def)

lemma readCallback_parsed:
  "parse (orEmptyObject data) = Some v \<Longrightarrow> readCallback parse None data = Fulfilled v"
  by (simp add: readCallback_def resolve_def)

text \<open>
  Claim C4, as the code has it.  For each of the two files: when the file is read and its
  text does not parse, the promise is fulfilled with the empty object and \<open>await\<close> returns
  it; when the read fails, as for a missing file, the promise is rejected with the error of
  the read, and \<open>await\<close> throws it into the \<open>catch\<close> block of \<open>main\<close>.
\<close>

theorem previous_files_tolerate_corrupt_only:
  "(fs (js ''./cache/date-scraped.json'') = Inr d \<and> parse (orEmptyObject (Some d)) = None \<longrightarrow>
      await (getPreviousTimes parse fs) = Some (Inr (JObject []))) \<and>
   (fs (js ''./cache/schedule.json'') = Inr d \<and> parse (orEmptyObject (Some d)) = None \<longrightarrow>
      await (getPreviousSchedule parse fs) = Some (Inr (JObject []))) \<and>
   (fs (js ''./cache/date-scraped.json'') = Inl e \<longrightarrow>
      await (getPreviousTimes parse fs) = Some (Inl e)) \<and>
   (fs (js ''./cache/schedule.json'') = Inl e \<longrightarrow>
      await (getPreviousSchedule parse fs) = Some (Inl e))"
  by (simp add: getPreviousTimes_def getPreviousSchedule_def readFile_def await_def
      readCallback_error readCallback_corrupt)

text \<open>The theorem at a file system with corrupt files and at one without files.\<close>

theorem previous_files_tolerate_corrupt_only_witness:
  "corruptFiles (js ''./cache/date-scraped.json'') = Inr (js ''{broken'') \<and>
   parseEmptyObject (orEmptyObject (Some (js ''{broken''))) = None \<and>
   await (getPreviousTimes parseEmptyObject corruptFiles) = Some (Inr (JObject [])) \<and>
   await (getPreviousSchedule parseEmptyObject corruptFiles) = Some (Inr (JObject [])) \<and>
   noFiles (js ''./cache/schedule.json'') = Inl (ReadError (js ''ENOENT'')) \<and>
   await (getPreviousSchedule parseEmptyObject noFiles) = Some (Inl (ReadError (js ''ENOENT'')))"
proof -
  have a: "corruptFiles (js ''./cache/date-scraped.json'') = Inr (js ''{broken'')"
    and a': "corruptFiles (js ''./cache/schedule.json'') = Inr (js ''{broken'')"
    by (simp_all add: corruptFiles_def)
  have b: "parseEmptyObject (orEmptyObject (Some (js ''{broken''))) = None"
    by (simp add: parseEmptyObject_def orEmptyObject_def js_def)
  have c: "noFiles (js ''./cache/schedule.json'') = Inl (ReadError (js ''ENOENT''))"
    by (simp add: noFiles_def)
  from previous_files_tolerate_corrupt_only
         [of corruptFiles "js ''{broken''" parseEmptyObject "ReadError (js ''ENOENT'')"]
       previous_files_tolerate_corrupt_only
         [of noFiles "js ''{broken''" parseEmptyObject "ReadError (js ''ENOENT'')"]
       a a' b c
  show ?thesis by simp
qed

text \<open>
  Claim C4 as stated fails for a missing file: both promises are rejected, and the caller
  gets the error instead of an empty table.
\<close>

theorem missing_file_rejects:
  "noFiles (js ''./cache/date-scraped.json'') = Inl (ReadError (js ''ENOENT'')) \<and>
   getPreviousTimes parseEmptyObject noFiles = Rejected (ReadError (js ''ENOENT'')) \<and>
   await (getPreviousTimes parseEmptyObject noFiles) = Some (Inl (ReadError (js ''ENOENT''))) \<and>
   getPreviousSchedule parseEmptyObject noFiles = Rejected (ReadError (js ''ENOENT''))"
  by (simp add: file_eval parseEmptyObject_def noFiles_def)

section \<open>Properties of the location aggregator\<close>

lemma buildDays_keys:
  "buildDays parse old a ds sch = Inr sch' \<Longrightarrow> fst ` set sch' \<subseteq> fst ` set sch \<union> set ds"
proof (induction ds arbitrary: sch)
  case Nil
  then show ?case by simp
next
  case (Cons day ds)
  from Cons.prems obtain daySchedule where
    sorted: "sortRanges parse (old day @ map (labelRange (activity a)) (newRanges a day))
      = Inr daySchedule" and
    rest: "buildDays parse old a ds
      (if daySchedule \<noteq> [] then AList.update day daySchedule sch else sch) = Inr sch'"
    by (auto split: sum.splits)
  from Cons.IH [OF rest]
  have "fst ` set sch' \<subseteq>
      fst ` set (if daySchedule \<noteq> [] then AList.update day daySchedule sch else sch) \<union> set ds" .
  moreover have "fst ` set (if daySchedule \<noteq> [] then AList.update day daySchedule sch else sch)
      \<subseteq> fst ` set sch \<union> {day}"
    by (simp add: dom_update subset_insertI)
  ultimately show ?case by auto
qed

lemma buildDays_nonempty:
  "buildDays parse old a ds sch = Inr sch' \<Longrightarrow> \<forall>d\<in>set sch. snd d \<noteq> [] \<Longrightarrow>
     \<forall>d\<in>set sch'. snd d \<noteq> []"
proof (induction ds arbitrary: sch)
  case Nil
  then show ?case by simp
next
  case (Cons day ds)
  from Cons.prems(1) obtain daySchedule where
    rest: "buildDays parse old a ds
      (if daySchedule \<noteq> [] then AList.update day daySchedule sch else sch) = Inr sch'"
    by (auto split: sum.splits)
  have "\<forall>d\<in>set (if daySchedule \<noteq> [] then AList.update day daySchedule sch else sch).
      snd d \<noteq> []"
  proof (cases "daySchedule \<noteq> []")
    case True
    show ?thesis
    proof
      fix d assume "d \<in> set (if daySchedule \<noteq> [] then AList.update day daySchedule sch else sch)"
      with True have "d = (day, daySchedule) \<or> d \<in> set sch"
        using update_entries [of "fst d" "snd d" day daySchedule sch] by simp
      with True Cons.prems(2) show "snd d \<noteq> []" by auto
    qed
  next
    case False
    with Cons.prems(2) show ?thesis by simp
  qed
  with Cons.IH [OF rest] show ?case by blast
qed

lemma addActivity_days:
  assumes "addActivity parse a acc = Inr acc'" and "\<forall>e\<in>set acc. daysOK e"
  shows "\<forall>e\<in>set acc'. daysOK e"
proof -
  from assms(1) obtain sch where
    sch: "buildDays parse (existingRanges acc (location a)) a defaultDays [] = Inr sch" and
    acc': "acc' = AList.update (location a)
      \<lparr>link = link a, home = home a, address = address a, coordinates = coordinates a,
       sched = sch\<rparr> acc"
    by (auto simp: addActivity_def split: sum.splits)
  from buildDays_keys [OF sch] have keys: "fst ` set sch \<subseteq> set defaultDays" by simp
  from buildDays_nonempty [OF sch] have full: "\<forall>d\<in>set sch. snd d \<noteq> []" by simp
  show ?thesis
  proof
    fix e assume "e \<in> set acc'"
    then have "e = (location a, \<lparr>link = link a, home = home a, address = address a,
        coordinates = coordinates a, sched = sch\<rparr>) \<or> e \<in> set acc"
      unfolding acc' using update_entries [of "fst e" "snd e"] by simp
    then show "daysOK e"
    proof
      assume "e = (location a, \<lparr>link = link a, home = home a, address = address a,
        coordinates = coordinates a, sched = sch\<rparr>)"
      with keys full show ?thesis by (simp add: daysOK_def)
    next
      assume "e \<in> set acc" with assms(2) show ?thesis by blast
    qed
  qed
qed

lemma reduceActivities_days:
  "reduceActivities parse results acc = Inr acc' \<Longrightarrow> \<forall>e\<in>set acc. daysOK e \<Longrightarrow>
     \<forall>e\<in>set acc'. daysOK e"
proof (induction results arbitrary: acc)
  case Nil
  then show ?case by simp
next
  case (Cons a rest)
  from Cons.prems(1) obtain mid where
    mid: "addActivity parse a acc = Inr mid" and
    fin: "reduceActivities parse rest mid = Inr acc'"
    by (auto split: sum.splits)
  from addActivity_days [OF mid Cons.prems(2)] have "\<forall>e\<in>set mid. daysOK e" .
  with Cons.IH [OF fin] show ?case by blast
qed

lemma markLocation_days:
  assumes "markLocation shortLocation day time e = Inr e'" and "daysOK e"
  shows "daysOK e'"
proof (cases "e' = e")
  case True
  with assms(2) show ?thesis by simp
next
  case False
  with assms(1) obtain xs where
    found: "propertyOf (snd e) (textOf day) = Ranges xs" and
    e': "e' = (fst e, (snd e)\<lparr>sched := AList.update (textOf day) (map (markRange time) xs)
                                         (sched (snd e))\<rparr>)"
    by (auto simp: markLocation_def split: if_splits property.splits)
  from found have look: "map_of (sched (snd e)) (textOf day) = Some xs"
    by (auto simp: propertyOf_def split: if_splits option.splits)
  then have mem: "(textOf day, xs) \<in> set (sched (snd e))" by (rule map_of_SomeD)
  then have key: "textOf day \<in> fst ` set (sched (snd e))" by force
  from mem assms(2) have "xs \<noteq> []" by (auto simp: daysOK_def)
  have keys: "fst ` set (sched (snd e')) = fst ` set (sched (snd e))"
    unfolding e' using key by (auto simp: dom_update)
  have full: "\<forall>d\<in>set (sched (snd e')). snd d \<noteq> []"
  proof
    fix d assume "d \<in> set (sched (snd e'))"
    then have "d = (textOf day, map (markRange time) xs) \<or> d \<in> set (sched (snd e))"
      unfolding e' using update_entries [of "fst d" "snd d"] by simp
    with \<open>xs \<noteq> []\<close> assms(2) show "snd d \<noteq> []" by (auto simp: daysOK_def)
  qed
  from keys full assms(2) show ?thesis by (simp add: daysOK_def)
qed

lemma markLocations_days:
  "markLocations shortLocation day time acc = Inr acc' \<Longrightarrow> \<forall>e\<in>set acc. daysOK e \<Longrightarrow>
     \<forall>e\<in>set acc'. daysOK e"
proof (induction acc arbitrary: acc')
  case Nil
  then show ?case by simp
next
  case (Cons e es)
  from Cons.prems(1) obtain e' es' where
    one: "markLocation shortLocation day time e = Inr e'" and
    others: "markLocations shortLocation day time es = Inr es'" and
    acc': "acc' = e' # es'"
    by (auto split: sum.splits)
  from markLocation_days [OF one] Cons.prems(2) have "daysOK e'" by simp
  moreover from Cons.IH [OF others] Cons.prems(2) have "\<forall>e\<in>set es'. daysOK e" by simp
  ultimately show ?case unfolding acc' by simp
qed

lemma markNew_days:
  "markNew clk n newTimes acc = Inr final \<Longrightarrow> \<forall>e\<in>set acc. daysOK e \<Longrightarrow>
     \<forall>e\<in>set final. daysOK e"
proof (induction newTimes arbitrary: n acc)
  case Nil
  then show ?case by simp
next
  case (Cons kv rest)
  show ?case
  proof (cases "clk n - snd kv < NEW_TIMESLOT")
    case True
    with Cons.prems(1) obtain acc' where
      marked: "markLocations (element (splitStr (js ''|'') (fst kv)) 0)
                   (element (splitStr (js ''|'') (fst kv)) 1)
                   (element (splitStr (js ''|'') (fst kv)) 2) acc = Inr acc'" and
      later: "markNew clk (Suc n) rest acc' = Inr final"
      by (auto split: sum.splits)
    from markLocations_days [OF marked Cons.prems(2)] have "\<forall>e\<in>set acc'. daysOK e" .
    with Cons.IH [OF later] show ?thesis by blast
  next
    case False
    with Cons.prems(1) have "markNew clk (Suc n) rest acc = Inr final" by simp
    with Cons.IH Cons.prems(2) show ?thesis by blast
  qed
qed

text \<open>
  Claim C10.  For every sequence of activity rows that the aggregator gets through, every
  location of the result has day properties named by \<open>defaultDays\<close> only, each with at
  least one range: a property of a row's schedule object under another name, such as
  \<open>undefined\<close>, is not read by the loop over \<open>defaultDays\<close> and is absent from the result.
  The marking of the new ranges, whatever the keys, their time stamps and the clock, keeps
  this: the output that it hands to the serialiser has the same day properties.
\<close>

theorem final_output_days:
  "resultsByLocation parse results = Inr acc \<Longrightarrow>
   (\<forall>e\<in>set acc. fst ` set (sched (snd e)) \<subseteq> set defaultDays \<and>
                (\<forall>d\<in>set (sched (snd e)). snd d \<noteq> [])) \<and>
   (\<forall>clk n newTimes final. markNew clk n newTimes acc = Inr final \<longrightarrow>
      (\<forall>e\<in>set final. fst ` set (sched (snd e)) \<subseteq> set defaultDays \<and>
                (\<forall>d\<in>set (sched (snd e)). snd d \<noteq> [])))"
proof -
  assume "resultsByLocation parse results = Inr acc"
  then have "reduceActivities parse results [] = Inr acc" by (simp add: resultsByLocation_def)
  then have agg: "\<forall>e\<in>set acc. daysOK e" by (rule reduceActivities_days) simp
  have "\<forall>e\<in>set final. daysOK e" if "markNew clk n newTimes acc = Inr final"
    for clk n newTimes final
    using that agg by (rule markNew_days)
  with agg show ?thesis unfolding daysOK_def by blast
qed

text \<open>
  The theorem at a row whose schedule object has the properties \<open>Monday\<close>, \<open>undefined\<close> and
  \<open>Mon\<close>: only \<open>Monday\<close> is in the result, and the marking adds a star to its range.
\<close>

theorem final_output_days_witness:
  "resultsByLocation clock12 [weekendRow] =
     Inr [(js ''Gym'', \<lparr>link = None, home = js ''h'', address = js ''a'', coordinates = None,
            sched = [(js ''Monday'', [js ''9 - 10 am (Pickleball 50+)''])]\<rparr>)] \<and>
   markNew exampleClock 0 stampedGym
     [(js ''Gym'', \<lparr>link = None, home = js ''h'', address = js ''a'', coordinates = None,
            sched = [(js ''Monday'', [js ''9 - 10 am (Pickleball 50+)''])]\<rparr>)] =
     Inr [(js ''Gym'', \<lparr>link = None, home = js ''h'', address = js ''a'', coordinates = None,
            sched = [(js ''Monday'', [js ''9 - 10 am (Pickleball 50+)*''])]\<rparr>)] \<and>
   fst ` set [(js ''Monday'', [js ''9 - 10 am (Pickleball 50+)*''])] \<subseteq> set defaultDays"
proof -
  let ?acc = "[(js ''Gym'', \<lparr>link = None, home = js ''h'', address = js ''a'',
            coordinates = None,
            sched = [(js ''Monday'', [js ''9 - 10 am (Pickleball 50+)''])]\<rparr>)]"
  let ?final = "[(js ''Gym'', \<lparr>link = None, home = js ''h'', address = js ''a'',
            coordinates = None,
            sched = [(js ''Monday'', [js ''9 - 10 am (Pickleball 50+)*''])]\<rparr>)]"
  have run: "resultsByLocation clock12 [weekendRow] = Inr ?acc"
    by (simp add: aggregate_eval weekendRow_def)
  have mark: "markNew exampleClock 0 stampedGym ?acc = Inr ?final"
    by (simp add: mark_eval str_eval stampedGym_def exampleClock_def)
  from final_output_days [OF run] mark
  have "\<forall>e\<in>set ?final. fst ` set (sched (snd e)) \<subseteq> set defaultDays \<and>
                (\<forall>d\<in>set (sched (snd e)). snd d \<noteq> [])"
    by blast
  then have "fst ` set [(js ''Monday'', [js ''9 - 10 am (Pickleball 50+)*''])]
      \<subseteq> set defaultDays"
    by simp
  with run mark show ?thesis by simp
qed




















text \<open>
  The cut of line 415 takes its index on the whole label and applies it to the piece after
  the dash.  At this label it leaves one digit of the end \<open>11 am\<close>; such a label is outside
  \<open>endTimesRead\<close> for the 12-hour clock.
\<close>

lemma timeText_cuts_end_short:
  "timeText (js ''9 am - 11 am (Pickleball)'') = Some (js ''1'') \<and>
   endText (js ''9 am - 11 am (Pickleball)'') = Some (js ''11 am'')"
  by (simp add: aggregate_eval)




end
